theory Spec2Isabelle
  imports Complex_Main
begin

section \<open>Python values used by the tracker script\<close>

text \<open>
  The script \<^verbatim>\<open>src/app.py\<close> handles four kinds of Python values: \<^verbatim>\<open>None\<close>, integers,
  floats and strings. A float is modelled by the real number it denotes (the script only
  stores, compares with zero and formats coordinates); text is modelled by its UTF-8
  bytes, so that \<^verbatim>\<open>.encode('utf-8')\<close> is the identity on the model.
\<close>

datatype pyval = PNone | PInt int | PFloat real | PStr string

text \<open>Python truthiness, as used by \<^verbatim>\<open>if error:\<close>, \<^verbatim>\<open>if lat and lon:\<close> and
  \<^verbatim>\<open>if latest['accuracy']:\<close>.\<close>

fun truthy :: "pyval \<Rightarrow> bool" where
  "truthy PNone = False"
| "truthy (PInt i) = (i \<noteq> 0)"
| "truthy (PFloat x) = (x \<noteq> 0)"
| "truthy (PStr s) = (s \<noteq> [])"

subsection \<open>Decimal text\<close>

definition digit_char :: "nat \<Rightarrow> char" where
  "digit_char d = char_of (48 + d)"

fun show_nat :: "nat \<Rightarrow> string" where
  "show_nat n = (if n < 10 then [digit_char n] else show_nat (n div 10) @ [digit_char (n mod 10)])"

declare show_nat.simps [simp del]

definition show_int :: "int \<Rightarrow> string" where
  "show_int i = (if i < 0 then CHR ''-'' # show_nat (nat (- i)) else show_nat (nat i))"

definition is_digit :: "char \<Rightarrow> bool" where
  "is_digit c = (48 \<le> (of_char c :: nat) \<and> (of_char c :: nat) \<le> 57)"

subsection \<open>Tables and the libraries the script calls\<close>

text \<open>A pandas \<^verbatim>\<open>DataFrame\<close>: the column labels and the rows, one cell per column.\<close>

record dataframe =
  columns :: "string list"
  rows :: "pyval list list"

text \<open>
  Two library functions are not defined by the repository and are parameters of the
  model: how Python renders a float inside an f-string, and pandas' \<^verbatim>\<open>to_csv(index=False)\<close>
  (the last section of the definitions describes the text it is specified to write).
\<close>

record library =
  format_float :: "real \<Rightarrow> string"
  to_csv :: "dataframe \<Rightarrow> string"

text \<open>The text an f-string substitutes for \<^verbatim>\<open>{v}\<close>.\<close>

fun format_val :: "library \<Rightarrow> pyval \<Rightarrow> string" where
  "format_val L PNone = ''None''"
| "format_val L (PInt i) = show_int i"
| "format_val L (PFloat x) = format_float L x"
| "format_val L (PStr s) = s"

subsection \<open>The clock\<close>

text \<open>What \<^verbatim>\<open>datetime.now()\<close> returns; \<^verbatim>\<open>valid_datetime\<close> is the range check of Python's
  \<^verbatim>\<open>datetime\<close> constructor (years 1 to 9999).\<close>

record datetime =
  year :: nat
  month :: nat
  day :: nat
  hour :: nat
  minute :: nat
  second :: nat

definition valid_datetime :: "datetime \<Rightarrow> bool" where
  "valid_datetime d =
     (1 \<le> year d \<and> year d \<le> 9999 \<and> 1 \<le> month d \<and> month d \<le> 12 \<and>
      1 \<le> day d \<and> day d \<le> 31 \<and> hour d < 24 \<and> minute d < 60 \<and> second d < 60)"

definition zfill :: "nat \<Rightarrow> string \<Rightarrow> string" where
  "zfill w s = replicate (w - length s) CHR ''0'' @ s"

text \<open>\<^verbatim>\<open>.strftime("%Y-%m-%d %H:%M:%S")\<close>: the year zero-padded to four digits, as Python
  documents \<^verbatim>\<open>%Y\<close>, every other field to two. (The padding of the year only shows for years
  before 1000, which a clock reading does not produce.)\<close>

definition strftime :: "datetime \<Rightarrow> string" where
  "strftime d =
     zfill 4 (show_nat (year d)) @ ''-'' @ zfill 2 (show_nat (month d)) @ ''-'' @
     zfill 2 (show_nat (day d)) @ '' '' @ zfill 2 (show_nat (hour d)) @ '':'' @
     zfill 2 (show_nat (minute d)) @ '':'' @ zfill 2 (show_nat (second d))"

text \<open>The shape \<^verbatim>\<open>YYYY-MM-DD HH:MM:SS\<close>: in the pattern, \<^verbatim>\<open>d\<close> stands for one decimal
  digit and every other character for itself.\<close>

definition pattern_char :: "char \<Rightarrow> char \<Rightarrow> bool" where
  "pattern_char p c = (if p = CHR ''d'' then is_digit c else c = p)"

definition is_timestamp :: "string \<Rightarrow> bool" where
  "is_timestamp s = list_all2 pattern_char ''dddd-dd-dd dd:dd:dd'' s"

subsection \<open>The reverse-geocoding service\<close>

text \<open>
  \<^verbatim>\<open>geolocator.reverse(query)\<close> either raises, or returns \<^verbatim>\<open>None\<close> (no result), or returns
  a location object with an \<^verbatim>\<open>address\<close> attribute. The service and the clock are the
  environment of one call site: \<^verbatim>\<open>reverse\<close> answers the query string, \<^verbatim>\<open>now\<close> is the time
  read there.
\<close>

datatype geopy_location = GeoLocation (geo_address: string)

datatype reverse_result = Raises | Returns "geopy_location option"

record service =
  reverse :: "string \<Rightarrow> reverse_result"
  now :: datetime

text \<open>
  The block
  \<^verbatim>\<open>try: location = geolocator.reverse(q); address = location.address\<close>
  \<^verbatim>\<open>except: address = "Unknown location"\<close>
  which the script has twice (lines 64-68 and 91-95). Reading \<^verbatim>\<open>.address\<close> of \<^verbatim>\<open>None\<close>
  raises inside the \<^verbatim>\<open>try\<close> and is caught by the bare \<^verbatim>\<open>except\<close> as well.
\<close>

definition try_reverse :: "(string \<Rightarrow> reverse_result) \<Rightarrow> string \<Rightarrow> string" where
  "try_reverse rv q =
     (case rv q of
        Raises \<Rightarrow> ''Unknown location''
      | Returns None \<Rightarrow> ''Unknown location''
      | Returns (Some loc) \<Rightarrow> geo_address loc)"

section \<open>Location records and the session state\<close>

text \<open>The dictionary both controllers build, with its keys in the order written.\<close>

record loc_data =
  latitude :: pyval
  longitude :: pyval
  accuracy :: pyval
  address :: string
  timestamp :: string

text \<open>
  \<^verbatim>\<open>st.session_state\<close>: the history list and the four values \<^verbatim>\<open>get_location\<close> reads with
  \<^verbatim>\<open>.get(key, None)\<close> (an absent key reads as \<^verbatim>\<open>None\<close>). Lines 21-22 create the empty
  history on the first run of a session and do nothing afterwards, so a session starts
  in \<^verbatim>\<open>fresh_session\<close>.
\<close>

record session_state =
  locations :: "loc_data list"
  lat :: pyval
  lon :: pyval
  acc :: pyval
  error :: pyval

definition fresh_session :: session_state where
  "fresh_session = \<lparr>locations = [], lat = PNone, lon = PNone, acc = PNone, error = PNone\<rparr>"

text \<open>\<^verbatim>\<open>st.session_state.locations.append(x)\<close> (lines 104 and 127).\<close>

definition append_location :: "session_state \<Rightarrow> loc_data \<Rightarrow> session_state" where
  "append_location st x = st\<lparr>locations := locations st @ [x]\<rparr>"

section \<open>What a run of the script shows\<close>

datatype icon = Icon (color: string) (icon_name: string)

text \<open>A child added to a folium map: \<^verbatim>\<open>Marker(location, popup, icon)\<close> or
  \<^verbatim>\<open>PolyLine(points, color, weight, opacity)\<close>.\<close>

datatype child =
    Marker (marker_location: "pyval list") (marker_popup: string) (marker_icon: icon)
  | PolyLine "pyval list list" string real int

record folium_map =
  location :: "pyval list"
  zoom_start :: nat
  children :: "child list"

datatype ui =
    Title string
  | Markdown string
  | Header string
  | Subheader string
  | Error string
  | Success string
  | Info string
  | Write string
  | GeolocationHtml
  | FoliumStatic folium_map nat nat
  | Dataframe dataframe
  | DownloadButton string string string string

section \<open>The browser-geolocation controller\<close>

text \<open>
  \<^verbatim>\<open>get_location()\<close> (lines 25-78). \<^verbatim>\<open>GeolocationHtml\<close> is the hidden component of line 49.
  The result is what the function shows and what it returns (\<^verbatim>\<open>None\<close> or the record).
\<close>

definition get_location :: "library \<Rightarrow> service \<Rightarrow> session_state \<Rightarrow> ui list \<times> loc_data option" where
  "get_location L sv st =
     (if truthy (error st) then
        ([GeolocationHtml, Error (''Error getting location: '' @ format_val L (error st))], None)
      else if truthy (lat st) \<and> truthy (lon st) then
        ([GeolocationHtml],
         Some \<lparr>latitude = lat st, longitude = lon st, accuracy = acc st,
               address = try_reverse (reverse sv)
                           (format_val L (lat st) @ '', '' @ format_val L (lon st)),
               timestamp = strftime (now sv)\<rparr>)
      else ([GeolocationHtml], None))"

section \<open>The sidebar: manual entry and clearing\<close>

text \<open>The handler of the button "Add Manual Location" (lines 89-105).\<close>

definition add_manual_location ::
  "library \<Rightarrow> service \<Rightarrow> real \<Rightarrow> real \<Rightarrow> session_state \<Rightarrow> ui list \<times> session_state" where
  "add_manual_location L sv manual_lat manual_lon st =
     (let address' = try_reverse (reverse sv)
                       (format_float L manual_lat @ '', '' @ format_float L manual_lon);
          loc = \<lparr>latitude = PFloat manual_lat, longitude = PFloat manual_lon,
                 accuracy = PInt 0, address = address',
                 timestamp = strftime (now sv)\<rparr>
      in ([Success ''Manual location added!''], append_location st loc))"

text \<open>The handler of the button "Clear Location History" (lines 113-115).\<close>

definition clear_history :: "session_state \<Rightarrow> ui list \<times> session_state" where
  "clear_history st = ([Success ''Location history cleared!''], st\<lparr>locations := []\<rparr>)"

section \<open>The widgets' values in one run\<close>

text \<open>
  What the widgets return in one run of the script: the two number inputs, the buttons
  (true in the run their click starts), the auto-tracking checkbox, the interval slider
  (which only returns values from 5 to 60) and the reading of \<^verbatim>\<open>time.time()\<close>.
\<close>

record inputs =
  manual_lat :: real
  manual_lon :: real
  btn_add_manual :: bool
  auto_track :: bool
  update_interval :: int
  btn_clear :: bool
  btn_get_current :: bool
  time_time :: real
  btn_export :: bool

text \<open>The sidebar block (lines 81-115): what it shows and the state it leaves.\<close>

definition sidebar :: "library \<Rightarrow> service \<Rightarrow> inputs \<Rightarrow> session_state \<Rightarrow> ui list \<times> session_state" where
  "sidebar L sv inp st =
     (let (shown1, st1) =
            (if btn_add_manual inp
             then add_manual_location L sv (manual_lat inp) (manual_lon inp) st
             else ([], st));
          (shown2, st2) = (if btn_clear inp then clear_history st1 else ([], st1))
      in ([Header ''Tracking Controls'', Subheader ''Manual Location Input''] @ shown1 @
          [Subheader ''Automatic Tracking''] @ shown2, st2))"

section \<open>Acquiring the current location\<close>

text \<open>Python's \<^verbatim>\<open>x % n\<close> for a float \<^verbatim>\<open>x\<close> and a positive integer \<^verbatim>\<open>n\<close>.\<close>

definition py_fmod :: "real \<Rightarrow> int \<Rightarrow> real" where
  "py_fmod x n = x - of_int \<lfloor>x / of_int n\<rfloor> * of_int n"

text \<open>The condition of line 124.\<close>

definition acquisition_due :: "inputs \<Rightarrow> bool" where
  "acquisition_due inp =
     (btn_get_current inp \<or> (auto_track inp \<and> py_fmod (time_time inp) (update_interval inp) < 1))"

text \<open>Lines 124-128: a returned record is appended, \<^verbatim>\<open>None\<close> leaves the history alone.\<close>

definition acquire :: "library \<Rightarrow> service \<Rightarrow> inputs \<Rightarrow> session_state \<Rightarrow> ui list \<times> session_state" where
  "acquire L sv inp st =
     (if acquisition_due inp then
        (case get_location L sv st of
           (shown, None) \<Rightarrow> (shown, st)
         | (shown, Some loc) \<Rightarrow>
             (shown @ [Success (''Location updated: '' @ address loc)],
              append_location st loc))
      else ([], st))"

section \<open>The map\<close>

definition nl :: string where
  "nl = [CHR 0x0A]"

definition indent :: string where
  "indent = replicate 12 CHR '' ''"

text \<open>The popup's f-string (lines 140-144), with its line breaks and indentation.\<close>

definition popup_text :: "library \<Rightarrow> loc_data \<Rightarrow> string" where
  "popup_text L loc =
     nl @ indent @ ''Time: '' @ timestamp loc @ ''<br>'' @
     nl @ indent @ ''Coordinates: '' @ format_val L (latitude loc) @ '', '' @
       format_val L (longitude loc) @ ''<br>'' @
     nl @ indent @ ''Address: '' @ address loc @
     nl @ indent"

definition latest_icon :: icon where
  "latest_icon = Icon ''red'' ''location-arrow''"

definition earlier_icon :: icon where
  "earlier_icon = Icon ''blue'' ''info-sign''"

text \<open>The body of the loop over \<^verbatim>\<open>enumerate(st.session_state.locations)\<close>; \<^verbatim>\<open>n\<close> is the
  length of the history.\<close>

definition marker_for :: "library \<Rightarrow> nat \<Rightarrow> nat \<times> loc_data \<Rightarrow> child" where
  "marker_for L n p =
     (case p of (i, loc) \<Rightarrow>
        if int i = int n - 1
        then Marker [latitude loc, longitude loc] (popup_text L loc) latest_icon
        else Marker [latitude loc, longitude loc] (popup_text L loc) earlier_icon)"

text \<open>Lines 133-163, reached only with a non-empty history.\<close>

definition build_map :: "library \<Rightarrow> loc_data list \<Rightarrow> folium_map" where
  "build_map L locs =
     (let last_loc = last locs;
          markers = map (marker_for L (length locs)) (enumerate 0 locs);
          path = (if length locs > 1
                  then [PolyLine (map (\<lambda>loc. [latitude loc, longitude loc]) locs) ''green'' 2.5 1]
                  else [])
      in \<lparr>location = [latitude last_loc, longitude last_loc], zoom_start = 15,
          children = markers @ path\<rparr>)"

definition apostrophe :: string where
  "apostrophe = [CHR 0x27]"

text \<open>Lines 131-168: the map, or the placeholder when the history is empty.\<close>

definition map_view :: "library \<Rightarrow> loc_data list \<Rightarrow> ui list" where
  "map_view L locs =
     (if locs \<noteq> [] then [FoliumStatic (build_map L locs) 700 500]
      else [Info (''No location data available. Click '' @ apostrophe @
                  ''Get Current Location'' @ apostrophe @ '' to start tracking.'')])"

text \<open>What can be observed of a map: its markers and its polylines, each in the order
  they were added.\<close>

definition is_marker :: "child \<Rightarrow> bool" where
  "is_marker c = (case c of Marker _ _ _ \<Rightarrow> True | PolyLine _ _ _ _ \<Rightarrow> False)"

definition map_markers :: "folium_map \<Rightarrow> child list" where
  "map_markers m = filter is_marker (children m)"

definition map_polylines :: "folium_map \<Rightarrow> child list" where
  "map_polylines m = filter (\<lambda>c. \<not> is_marker c) (children m)"

text \<open>The maps a rendered column holds.\<close>

fun shown_maps :: "ui list \<Rightarrow> folium_map list" where
  "shown_maps [] = []"
| "shown_maps (FoliumStatic m w h # us) = m # shown_maps us"
| "shown_maps (u # us) = shown_maps us"

section \<open>The history panel and the export\<close>

text \<open>
  \<^verbatim>\<open>pd.DataFrame(list_of_dicts)\<close>: one column per key, in the order of the keys, one row
  per dictionary, in the order of the list. A cell holds the dictionary's value; pandas'
  column-wise conversions (an integer stored in a float column, \<^verbatim>\<open>None\<close> stored as \<^verbatim>\<open>NaN\<close>)
  are not modelled.
\<close>

definition loc_keys :: "string list" where
  "loc_keys = [''latitude'', ''longitude'', ''accuracy'', ''address'', ''timestamp'']"

definition loc_values :: "loc_data \<Rightarrow> pyval list" where
  "loc_values loc =
     [latitude loc, longitude loc, accuracy loc, PStr (address loc), PStr (timestamp loc)]"

definition DataFrame :: "loc_data list \<Rightarrow> dataframe" where
  "DataFrame locs = \<lparr>columns = (if locs = [] then [] else loc_keys), rows = map loc_values locs\<rparr>"

datatype py_exception = KeyError

fun index_of :: "'a \<Rightarrow> 'a list \<Rightarrow> nat option" where
  "index_of x [] = None"
| "index_of x (y # ys) = (if x = y then Some 0 else map_option Suc (index_of x ys))"

text \<open>\<^verbatim>\<open>df[[name, ...]]\<close>: the named columns in the order asked for; a name that is not a
  column raises \<^verbatim>\<open>KeyError\<close>.\<close>

definition getitem_columns :: "dataframe \<Rightarrow> string list \<Rightarrow> py_exception + dataframe" where
  "getitem_columns df names =
     (case those (map (\<lambda>name. index_of name (columns df)) names) of
        None \<Rightarrow> Inl KeyError
      | Some idx \<Rightarrow> Inr \<lparr>columns = names, rows = map (\<lambda>r. map (\<lambda>i. r ! i) idx) (rows df)\<rparr>)"

definition emoji_pin :: string where
  "emoji_pin = [CHR 0xF0, CHR 0x9F, CHR 0x93, CHR 0x8D]"

definition emoji_calendar :: string where
  "emoji_calendar = [CHR 0xF0, CHR 0x9F, CHR 0x93, CHR 0x85]"

definition emoji_globe :: string where
  "emoji_globe = [CHR 0xF0, CHR 0x9F, CHR 0x8C, CHR 0x90]"

definition emoji_target :: string where
  "emoji_target = [CHR 0xF0, CHR 0x9F, CHR 0x8E, CHR 0xAF]"

definition plus_minus :: string where
  "plus_minus = [CHR 0xC2, CHR 0xB1]"

text \<open>Lines 178-184: the details of the latest record; the accuracy line is guarded by
  \<^verbatim>\<open>if latest['accuracy']:\<close>.\<close>

definition latest_details :: "library \<Rightarrow> loc_data \<Rightarrow> ui list" where
  "latest_details L latest =
     [Write ''Latest Location:'',
      Write (emoji_calendar @ '' **Time:** '' @ timestamp latest),
      Write (emoji_globe @ '' **Coordinates:** '' @ format_val L (latitude latest) @ '', '' @
             format_val L (longitude latest)),
      Write (emoji_pin @ '' **Address:** '' @ address latest)] @
     (if truthy (accuracy latest)
      then [Write (emoji_target @ '' **Accuracy:** '' @ plus_minus @
                   format_val L (accuracy latest) @ '' meters'')]
      else [])"

text \<open>
  Lines 173-203: what the column shows, and the exception that ends it, if any. The
  download button exists only in the run started by the export button.
\<close>

definition history_panel :: "library \<Rightarrow> bool \<Rightarrow> loc_data list \<Rightarrow> ui list \<times> py_exception option" where
  "history_panel L export locs =
     (if locs \<noteq> [] then
        (let df = DataFrame locs;
             latest = last locs;
             shown = latest_details L latest @ [Write ''All Locations:'']
         in case getitem_columns df [''timestamp'', ''latitude'', ''longitude''] of
              Inl e \<Rightarrow> (shown, Some e)
            | Inr df_display \<Rightarrow>
                (shown @
                 [Dataframe (df_display\<lparr>columns := [''Time'', ''Latitude'', ''Longitude'']\<rparr>)] @
                 (if export
                  then [DownloadButton ''Download CSV File'' (to_csv L df)
                          ''location_history.csv'' ''text/csv'']
                  else []),
                 None))
      else ([Info ''No location history available.''], None))"

section \<open>One run of the script, and a session\<close>

record page =
  page_head :: "ui list"
  page_sidebar :: "ui list"
  page_col1 :: "ui list"
  page_col2 :: "ui list"
  page_raised :: "py_exception option"
  page_foot :: "ui list"

definition footer_note :: string where
  "footer_note =
     nl @ ''**Note:** This application uses browser geolocation which requires:'' @
     nl @ ''1. Permission from your browser'' @
     nl @ ''2. A secure connection (HTTPS) in production environments'' @
     nl @ ''3. Location services enabled on your device'' @ nl"

text \<open>
  The whole script, top to bottom. The manual handler and \<^verbatim>\<open>get_location\<close> each call the
  geocoder and the clock, so a run has one environment for each of the two call sites.
  An exception in the history column ends the run before the footer.
\<close>

definition run ::
  "library \<Rightarrow> service \<Rightarrow> service \<Rightarrow> inputs \<Rightarrow> session_state \<Rightarrow> page \<times> session_state" where
  "run L sv_manual sv_browser inp st =
     (let (side, st1) = sidebar L sv_manual inp st;
          (got, st2) = acquire L sv_browser inp st1;
          (hist, raised) = history_panel L (btn_export inp) (locations st2)
      in (\<lparr>page_head = [Title (emoji_pin @ '' Simple GPS Location Tracker''),
                         Markdown ''A basic application to track your GPS location''],
           page_sidebar = side,
           page_col1 = [Subheader ''Location Map''] @ got @ map_view L (locations st2),
           page_col2 = [Subheader ''Location History''] @ hist,
           page_raised = raised,
           page_foot = (if raised = None then [Markdown ''---'', Markdown footer_note] else [])\<rparr>,
          st2))"

text \<open>A session is a sequence of runs, each with its own environments and widget values.\<close>

fun session ::
  "library \<Rightarrow> (service \<times> service \<times> inputs) list \<Rightarrow> session_state \<Rightarrow> session_state" where
  "session L [] st = st"
| "session L ((sv_manual, sv_browser, inp) # steps) st =
     session L steps (snd (run L sv_manual sv_browser inp st))"

text \<open>The range the data model asks of a record's coordinates.\<close>

definition in_range :: "real \<Rightarrow> real \<Rightarrow> pyval \<Rightarrow> bool" where
  "in_range lo hi v =
     (case v of PFloat x \<Rightarrow> lo \<le> x \<and> x \<le> hi | PInt i \<Rightarrow> lo \<le> of_int i \<and> of_int i \<le> hi
      | _ \<Rightarrow> False)"

definition valid_coordinates :: "loc_data \<Rightarrow> bool" where
  "valid_coordinates loc = (in_range (-90) 90 (latitude loc) \<and> in_range (-180) 180 (longitude loc))"

section \<open>The exported text\<close>

text \<open>
  Modelled from the spec: pandas' \<^verbatim>\<open>to_csv(index=False)\<close> and a reader of the exported text
  are not code of this repository. They are modelled from section 6 of the specification
  (comma-delimited text, a header row of the attribute names, one row per record, numbers
  as decimal text, an absent value blank) and from pandas' documented defaults (a field is
  quoted when it holds a comma, a quote or a line break; a quote inside is doubled; every
  line ends with a line feed). The script passes the text on unchanged
  (\<^verbatim>\<open>.encode('utf-8')\<close> is the identity on UTF-8 bytes).
\<close>

















section \<open>Auxiliary facts\<close>

lemma locations_append_location: "locations (append_location st x) = locations st @ [x]"
  by (simp add: append_location_def)

lemma locations_foldl_append: "locations (foldl append_location st xs) = locations st @ xs"
  by (induction xs arbitrary: st) (simp_all add: locations_append_location)

lemma sidebar_locations:
  "locations (snd (sidebar L sv inp st)) =
     (if btn_clear inp then []
      else if btn_add_manual inp
      then locations st @ [\<lparr>latitude = PFloat (manual_lat inp), longitude = PFloat (manual_lon inp),
             accuracy = PInt 0,
             address = try_reverse (reverse sv)
               (format_float L (manual_lat inp) @ '', '' @ format_float L (manual_lon inp)),
             timestamp = strftime (now sv)\<rparr>]
      else locations st)"
  by (simp add: sidebar_def add_manual_location_def clear_history_def append_location_def Let_def)

lemma sidebar_reads:
  "lat (snd (sidebar L sv inp st)) = lat st"
  "lon (snd (sidebar L sv inp st)) = lon st"
  "acc (snd (sidebar L sv inp st)) = acc st"
  "error (snd (sidebar L sv inp st)) = error st"
  by (simp_all add: sidebar_def add_manual_location_def clear_history_def append_location_def Let_def)

lemma acquire_locations:
  "locations (snd (acquire L sv inp st)) =
     locations st @
     (if acquisition_due inp then (case snd (get_location L sv st) of None \<Rightarrow> [] | Some loc \<Rightarrow> [loc])
      else [])"
  by (simp add: acquire_def append_location_def split: prod.splits option.splits)

lemma acquire_reads:
  "lat (snd (acquire L sv inp st)) = lat st"
  "lon (snd (acquire L sv inp st)) = lon st"
  "acc (snd (acquire L sv inp st)) = acc st"
  "error (snd (acquire L sv inp st)) = error st"
  by (simp_all add: acquire_def append_location_def split: prod.splits option.splits)

lemma run_state: "snd (run L svm svb inp st) = snd (acquire L svb inp (snd (sidebar L svm inp st)))"
  by (simp add: run_def Let_def split: prod.splits)

lemma run_keeps_prefix:
  "\<not> btn_clear inp \<Longrightarrow> \<exists>new. locations (snd (run L svm svb inp st)) = locations st @ new"
  by (simp add: run_state acquire_locations sidebar_locations)

lemma session_keeps_prefix:
  "\<forall>step \<in> set steps. \<not> btn_clear (snd (snd step)) \<Longrightarrow>
   \<exists>new. locations (session L steps st) = locations st @ new"
proof (induction steps arbitrary: st)
  case Nil
  then show ?case by simp
next
  case (Cons step steps)
  obtain svm svb inp where step: "step = (svm, svb, inp)" by (cases step) auto
  with Cons.prems have nc: "\<not> btn_clear inp" by simp
  from run_keeps_prefix [OF nc] obtain new1
    where n1: "locations (snd (run L svm svb inp st)) = locations st @ new1" by blast
  from Cons.IH [of "snd (run L svm svb inp st)"] Cons.prems obtain new2
    where "locations (session L steps (snd (run L svm svb inp st))) =
           locations (snd (run L svm svb inp st)) @ new2" by auto
  with n1 step show ?case by simp
qed

lemma get_location_reads:
  "lat st' = lat st \<Longrightarrow> lon st' = lon st \<Longrightarrow> acc st' = acc st \<Longrightarrow> error st' = error st \<Longrightarrow>
   get_location L sv st' = get_location L sv st"
  by (simp add: get_location_def)

lemma run_locations:
  "locations (snd (run L svm svb inp st)) =
     (if btn_clear inp then []
      else locations st @
        (if btn_add_manual inp
         then [\<lparr>latitude = PFloat (manual_lat inp), longitude = PFloat (manual_lon inp),
                 accuracy = PInt 0,
                 address = try_reverse (reverse svm)
                   (format_float L (manual_lat inp) @ '', '' @ format_float L (manual_lon inp)),
                 timestamp = strftime (now svm)\<rparr>]
         else [])) @
     (if acquisition_due inp
      then (case snd (get_location L svb st) of None \<Rightarrow> [] | Some loc \<Rightarrow> [loc])
      else [])"
proof -
  have g: "get_location L svb (snd (sidebar L svm inp st)) = get_location L svb st"
    by (rule get_location_reads) (simp_all add: sidebar_reads)
  show ?thesis
    by (simp add: run_state acquire_locations sidebar_locations g)
qed

lemma run_reads:
  "lat (snd (run L svm svb inp st)) = lat st"
  "lon (snd (run L svm svb inp st)) = lon st"
  "acc (snd (run L svm svb inp st)) = acc st"
  "error (snd (run L svm svb inp st)) = error st"
  by (simp_all add: run_state acquire_reads sidebar_reads)

lemma session_reads:
  "lat (session L steps st) = lat st \<and> lon (session L steps st) = lon st \<and>
   acc (session L steps st) = acc st \<and> error (session L steps st) = error st"
  by (induction L steps st rule: session.induct) (simp_all add: run_reads)

lemma try_reverse_Raises: "rv q = Raises \<Longrightarrow> try_reverse rv q = ''Unknown location''"
  by (simp add: try_reverse_def)

lemma run_page:
  "page_col1 (fst (run L svm svb inp st)) =
     [Subheader ''Location Map''] @ fst (acquire L svb inp (snd (sidebar L svm inp st))) @
     map_view L (locations (snd (run L svm svb inp st)))"
  "page_col2 (fst (run L svm svb inp st)) =
     [Subheader ''Location History''] @
     fst (history_panel L (btn_export inp) (locations (snd (run L svm svb inp st))))"
  "page_raised (fst (run L svm svb inp st)) =
     snd (history_panel L (btn_export inp) (locations (snd (run L svm svb inp st))))"
  by (simp_all add: run_def Let_def split: prod.splits)

lemma is_digit_digit_char: "d < 10 \<Longrightarrow> is_digit (digit_char d)"
  by (simp add: is_digit_def digit_char_def)

lemma show_nat_digits: "list_all is_digit (show_nat n)"
proof (induction n rule: show_nat.induct)
  case (1 n)
  show ?case
  proof (cases "n < 10")
    case True
    then show ?thesis by (simp add: show_nat.simps [of n] is_digit_digit_char)
  next
    case False
    with "1" show ?thesis by (simp add: show_nat.simps [of n] is_digit_digit_char)
  qed
qed

lemma length_show_nat: "0 < k \<Longrightarrow> n < 10 ^ k \<Longrightarrow> length (show_nat n) \<le> k"
proof (induction k arbitrary: n)
  case 0
  then show ?case by simp
next
  case (Suc k)
  show ?case
  proof (cases "n < 10")
    case True
    then show ?thesis by (simp add: show_nat.simps [of n])
  next
    case False
    then have k: "0 < k" using Suc.prems by (cases k) auto
    have "n div 10 < 10 ^ k" using Suc.prems by (simp add: less_mult_imp_div_less mult.commute)
    with Suc.IH k have "length (show_nat (n div 10)) \<le> k" by blast
    with False show ?thesis by (simp add: show_nat.simps [of n])
  qed
qed

lemma zfill_field:
  assumes "0 < k" "n < 10 ^ k"
  shows "list_all2 pattern_char (replicate k CHR ''d'') (zfill k (show_nat n))"
proof -
  have len: "length (zfill k (show_nat n)) = k"
    using length_show_nat [OF assms] by (simp add: zfill_def)
  have dig: "list_all is_digit (zfill k (show_nat n))"
    using show_nat_digits [of n] by (auto simp: zfill_def list_all_iff is_digit_def)
  show ?thesis
    using len dig by (auto simp: list_all2_conv_all_nth list_all_length pattern_char_def)
qed

lemma literal_field: "list_all2 pattern_char [c] [c]" if "c \<noteq> CHR ''d''"
  using that by (simp add: pattern_char_def)

lemma strftime_is_timestamp: "valid_datetime d \<Longrightarrow> is_timestamp (strftime d)"
proof -
  assume v: "valid_datetime d"
  have pat: "''dddd-dd-dd dd:dd:dd'' =
      replicate 4 CHR ''d'' @ ''-'' @ replicate 2 CHR ''d'' @ ''-'' @ replicate 2 CHR ''d'' @ '' '' @
      replicate 2 CHR ''d'' @ '':'' @ replicate 2 CHR ''d'' @ '':'' @ replicate 2 CHR ''d''"
    by (simp add: eval_nat_numeral)
  have y: "list_all2 pattern_char (replicate 4 CHR ''d'') (zfill 4 (show_nat (year d)))"
    using v by (intro zfill_field) (simp_all add: valid_datetime_def)
  have mo: "list_all2 pattern_char (replicate 2 CHR ''d'') (zfill 2 (show_nat (month d)))"
    using v by (intro zfill_field) (simp_all add: valid_datetime_def)
  have da: "list_all2 pattern_char (replicate 2 CHR ''d'') (zfill 2 (show_nat (day d)))"
    using v by (intro zfill_field) (simp_all add: valid_datetime_def)
  have h: "list_all2 pattern_char (replicate 2 CHR ''d'') (zfill 2 (show_nat (hour d)))"
    using v by (intro zfill_field) (simp_all add: valid_datetime_def)
  have mi: "list_all2 pattern_char (replicate 2 CHR ''d'') (zfill 2 (show_nat (minute d)))"
    using v by (intro zfill_field) (simp_all add: valid_datetime_def)
  have s: "list_all2 pattern_char (replicate 2 CHR ''d'') (zfill 2 (show_nat (second d)))"
    using v by (intro zfill_field) (simp_all add: valid_datetime_def)
  show ?thesis
    unfolding is_timestamp_def strftime_def pat
    by (intro list_all2_appendI y mo da h mi s literal_field) simp_all
qed

lemma run_valid_coordinates:
  assumes "list_all valid_coordinates (locations st)"
    and "btn_add_manual inp \<longrightarrow>
           - 90 \<le> manual_lat inp \<and> manual_lat inp \<le> 90 \<and>
           - 180 \<le> manual_lon inp \<and> manual_lon inp \<le> 180"
    and "truthy (lat st) \<and> truthy (lon st) \<longrightarrow>
           in_range (- 90) 90 (lat st) \<and> in_range (- 180) 180 (lon st)"
  shows "list_all valid_coordinates (locations (snd (run L svm svb inp st)))"
  using assms
  by (auto simp: run_locations get_location_def valid_coordinates_def in_range_def
      split: if_splits)

lemma session_valid_coordinates:
  assumes "list_all valid_coordinates (locations st)"
    and "\<forall>step \<in> set steps. btn_add_manual (snd (snd step)) \<longrightarrow>
           - 90 \<le> manual_lat (snd (snd step)) \<and> manual_lat (snd (snd step)) \<le> 90 \<and>
           - 180 \<le> manual_lon (snd (snd step)) \<and> manual_lon (snd (snd step)) \<le> 180"
    and "truthy (lat st) \<and> truthy (lon st) \<longrightarrow>
           in_range (- 90) 90 (lat st) \<and> in_range (- 180) 180 (lon st)"
  shows "list_all valid_coordinates (locations (session L steps st))"
  using assms
proof (induction L steps st rule: session.induct)
  case (1 L st)
  then show ?case by simp
next
  case (2 L svm svb inp steps st)
  have "list_all valid_coordinates (locations (snd (run L svm svb inp st)))"
    using "2.prems" by (intro run_valid_coordinates) simp_all
  moreover have "\<forall>step \<in> set steps. btn_add_manual (snd (snd step)) \<longrightarrow>
           - 90 \<le> manual_lat (snd (snd step)) \<and> manual_lat (snd (snd step)) \<le> 90 \<and>
           - 180 \<le> manual_lon (snd (snd step)) \<and> manual_lon (snd (snd step)) \<le> 180"
    using "2.prems"(2) by simp
  moreover have "truthy (lat (snd (run L svm svb inp st))) \<and> truthy (lon (snd (run L svm svb inp st))) \<longrightarrow>
           in_range (- 90) 90 (lat (snd (run L svm svb inp st))) \<and>
           in_range (- 180) 180 (lon (snd (run L svm svb inp st)))"
    using "2.prems"(3) by (simp add: run_reads)
  ultimately show ?case
    using "2.IH" by simp
qed

lemma markers_enumerate:
  "xs \<noteq> [] \<Longrightarrow>
   map (marker_for L (n + length xs)) (enumerate n xs) =
     map (\<lambda>loc. Marker [latitude loc, longitude loc] (popup_text L loc) earlier_icon) (butlast xs) @
     [Marker [latitude (last xs), longitude (last xs)] (popup_text L (last xs)) latest_icon]"
proof (induction xs arbitrary: n)
  case Nil
  then show ?case by simp
next
  case (Cons x xs)
  show ?case
  proof (cases "xs = []")
    case True
    then show ?thesis by (simp add: marker_for_def)
  next
    case False
    from Cons.IH [OF False, of "Suc n"] False show ?thesis
      by (simp add: marker_for_def)
  qed
qed

lemma build_map_children:
  "locs \<noteq> [] \<Longrightarrow>
   children (build_map L locs) =
     map (\<lambda>loc. Marker [latitude loc, longitude loc] (popup_text L loc) earlier_icon) (butlast locs) @
     [Marker [latitude (last locs), longitude (last locs)] (popup_text L (last locs)) latest_icon] @
     (if 2 \<le> length locs
      then [PolyLine (map (\<lambda>loc. [latitude loc, longitude loc]) locs) ''green'' 2.5 1]
      else [])"
  using markers_enumerate [of locs L 0] by (auto simp: build_map_def Let_def)

lemma build_map_markers:
  "locs \<noteq> [] \<Longrightarrow>
   map_markers (build_map L locs) =
     map (\<lambda>loc. Marker [latitude loc, longitude loc] (popup_text L loc) earlier_icon) (butlast locs) @
     [Marker [latitude (last locs), longitude (last locs)] (popup_text L (last locs)) latest_icon]"
  by (simp add: map_markers_def build_map_children is_marker_def filter_map o_def)

lemma build_map_polylines:
  "locs \<noteq> [] \<Longrightarrow>
   map_polylines (build_map L locs) =
     (if 2 \<le> length locs
      then [PolyLine (map (\<lambda>loc. [latitude loc, longitude loc]) locs) ''green'' 2.5 1]
      else [])"
  by (simp add: map_polylines_def build_map_children is_marker_def filter_map o_def)

lemma coords_butlast_last:
  "locs \<noteq> [] \<Longrightarrow>
   map f (butlast locs) @ [f (last locs)] = map f locs"
  by (metis append_butlast_last_id list.simps(8,9) map_append)

lemma index_timestamp: "index_of ''timestamp'' loc_keys = Some 4"
  by (simp add: loc_keys_def)

lemma index_latitude: "index_of ''latitude'' loc_keys = Some 0"
  by (simp add: loc_keys_def)

lemma index_longitude: "index_of ''longitude'' loc_keys = Some 1"
  by (simp add: loc_keys_def)

lemma display_columns:
  "locs \<noteq> [] \<Longrightarrow>
   getitem_columns (DataFrame locs) [''timestamp'', ''latitude'', ''longitude''] =
     Inr \<lparr>columns = [''timestamp'', ''latitude'', ''longitude''],
          rows = map (\<lambda>loc. [PStr (timestamp loc), latitude loc, longitude loc]) locs\<rparr>"
  by (simp add: getitem_columns_def DataFrame_def index_timestamp index_latitude index_longitude
      loc_values_def)

lemma history_panel_nonempty:
  "locs \<noteq> [] \<Longrightarrow>
   history_panel L export locs =
     (latest_details L (last locs) @
      [Write ''All Locations:'',
       Dataframe \<lparr>columns = [''Time'', ''Latitude'', ''Longitude''],
                  rows = map (\<lambda>loc. [PStr (timestamp loc), latitude loc, longitude loc]) locs\<rparr>] @
      (if export
       then [DownloadButton ''Download CSV File'' (to_csv L (DataFrame locs))
               ''location_history.csv'' ''text/csv'']
       else []),
      None)"
  by (simp add: history_panel_def Let_def display_columns)

lemma target_line_not_fixed:
  "emoji_target @ s \<noteq> ''Latest Location:''"
  "emoji_target @ s \<noteq> emoji_calendar @ s1"
  "emoji_target @ s \<noteq> emoji_globe @ s2"
  "emoji_target @ s \<noteq> emoji_pin @ s3"
  "emoji_target @ s \<noteq> ''All Locations:''"
  by (simp_all add: emoji_target_def emoji_calendar_def emoji_globe_def emoji_pin_def)

lemma digit_char_zero: "digit_char 0 = CHR ''0''"
  by (simp add: digit_char_def char_of_eq_iff)

lemma zfill_one: "n < 10 \<Longrightarrow> zfill 1 (show_nat n) = [digit_char n]"
  by (simp add: show_nat.simps [of n] zfill_def)

lemma zfill_Suc:
  assumes "0 < k"
  shows "zfill (Suc k) (show_nat n) = zfill k (show_nat (n div 10)) @ [digit_char (n mod 10)]"
proof (cases "n < 10")
  case True
  have "replicate (k - Suc 0) CHR ''0'' @ ''0'' = replicate k CHR ''0''"
    using assms by (cases k) (simp_all add: replicate_append_same)
  with True show ?thesis
    by (simp add: show_nat.simps [of n] show_nat.simps [of 0] zfill_def digit_char_zero)
next
  case False
  then show ?thesis
    by (simp add: show_nat.simps [of n] zfill_def)
qed

lemma two_digits:
  "n < 100 \<Longrightarrow> zfill 2 (show_nat n) = [char_of (48 + n div 10), char_of (48 + n mod 10)]"
proof -
  assume "n < 100"
  then have "n div 10 < 10" by simp
  then show ?thesis
    using zfill_Suc [of 1 n] zfill_one [of "n div 10"]
    by (simp add: numeral_2_eq_2 digit_char_def)
qed

lemma four_digits:
  assumes "n < 10000"
  shows "zfill 4 (show_nat n) =
     [char_of (48 + n div 1000), char_of (48 + n div 100 mod 10),
      char_of (48 + n div 10 mod 10), char_of (48 + n mod 10)]"
proof -
  have a: "n div 10 div 10 = n div 100" "n div 10 div 10 div 10 = n div 1000"
    by (simp_all add: div_mult2_eq [symmetric])
  have b: "n div 1000 < 10" using assms by simp
  have "zfill 4 (show_nat n) = zfill 3 (show_nat (n div 10)) @ [digit_char (n mod 10)]"
    using zfill_Suc [of 3 n] by simp
  also have "zfill 3 (show_nat (n div 10)) =
      zfill 2 (show_nat (n div 100)) @ [digit_char (n div 10 mod 10)]"
    using zfill_Suc [of 2 "n div 10"] by (simp add: a numeral_3_eq_3 numeral_2_eq_2)
  also have "zfill 2 (show_nat (n div 100)) =
      zfill 1 (show_nat (n div 1000)) @ [digit_char (n div 100 mod 10)]"
    using zfill_Suc [of 1 "n div 100"] a by (simp add: numeral_2_eq_2 div_mult2_eq [symmetric])
  also have "zfill 1 (show_nat (n div 1000)) = [digit_char (n div 1000)]"
    using b by (rule zfill_one)
  finally show ?thesis by (simp add: digit_char_def)
qed

lemma strftime_digits:
  assumes "valid_datetime d"
  shows "strftime d =
     [char_of (48 + year d div 1000), char_of (48 + year d div 100 mod 10),
      char_of (48 + year d div 10 mod 10), char_of (48 + year d mod 10), CHR ''-'',
      char_of (48 + month d div 10), char_of (48 + month d mod 10), CHR ''-'',
      char_of (48 + day d div 10), char_of (48 + day d mod 10), CHR '' '',
      char_of (48 + hour d div 10), char_of (48 + hour d mod 10), CHR '':'',
      char_of (48 + minute d div 10), char_of (48 + minute d mod 10), CHR '':'',
      char_of (48 + second d div 10), char_of (48 + second d mod 10)]"
proof -
  have "year d < 10000" "month d < 100" "day d < 100" "hour d < 100" "minute d < 100"
    "second d < 100"
    using assms by (simp_all add: valid_datetime_def)
  then show ?thesis
    by (simp add: strftime_def two_digits four_digits)
qed

lemma digit_chars:
  "char_of (48 :: nat) = CHR ''0''" "char_of (49 :: nat) = CHR ''1''"
  "char_of (50 :: nat) = CHR ''2''" "char_of (51 :: nat) = CHR ''3''"
  "char_of (52 :: nat) = CHR ''4''" "char_of (53 :: nat) = CHR ''5''"
  "char_of (54 :: nat) = CHR ''6''" "char_of (55 :: nat) = CHR ''7''"
  "char_of (56 :: nat) = CHR ''8''" "char_of (57 :: nat) = CHR ''9''"
  by (simp_all add: char_of_eq_iff)
















lemma error_branch_shows_message:
  "truthy (error st) \<Longrightarrow>
   get_location L sv st =
     ([GeolocationHtml, Error (''Error getting location: '' @ format_val L (error st))], None) \<and>
   snd (acquire L sv inp st) = st \<and>
   (acquisition_due inp \<longrightarrow>
      fst (acquire L sv inp st) =
        [GeolocationHtml, Error (''Error getting location: '' @ format_val L (error st))])"
  by (simp add: get_location_def acquire_def)

section \<open>Properties of the tracker\<close>

subsection \<open>Geocoding failures\<close>

text \<open>
  C1. When the reverse-geocoding lookup raises on the query built from the coordinates
  (or returns no result, so that reading its address raises), the address is exactly the
  string "Unknown location" and nothing is propagated: the
  manual handler still appends its record, and \<^verbatim>\<open>get_location\<close> (given a truthy latitude and
  longitude and no error) still returns its record, which the caller appends.
\<close>

theorem geocoding_failure_falls_back:
  "(rv q = Raises \<longrightarrow> try_reverse rv q = ''Unknown location'') \<and>
   (rv q = Returns None \<longrightarrow> try_reverse rv q = ''Unknown location'') \<and>
   (reverse sv (format_float L la @ '', '' @ format_float L lo) = Raises \<longrightarrow>
      snd (add_manual_location L sv la lo st) =
        append_location st
          \<lparr>latitude = PFloat la, longitude = PFloat lo, accuracy = PInt 0,
           address = ''Unknown location'', timestamp = strftime (now sv)\<rparr>) \<and>
   (\<not> truthy (error st) \<and> truthy (lat st) \<and> truthy (lon st) \<and>
    reverse sv (format_val L (lat st) @ '', '' @ format_val L (lon st)) = Raises \<longrightarrow>
      snd (get_location L sv st) =
        Some \<lparr>latitude = lat st, longitude = lon st, accuracy = acc st,
              address = ''Unknown location'', timestamp = strftime (now sv)\<rparr> \<and>
      (acquisition_due inp \<longrightarrow>
         locations (snd (acquire L sv inp st)) =
           locations st @
             [\<lparr>latitude = lat st, longitude = lon st, accuracy = acc st,
               address = ''Unknown location'', timestamp = strftime (now sv)\<rparr>]))"
  by (simp add: try_reverse_Raises add_manual_location_def get_location_def acquire_locations)
    (simp add: try_reverse_def)

theorem geocoding_failure_falls_back_witness:
  "try_reverse (\<lambda>q. Raises) ''0.0, 0.0'' = ''Unknown location'' \<and>
   try_reverse (\<lambda>q. Returns None) ''0.0, 0.0'' = ''Unknown location'' \<and>
   reverse
     \<lparr>reverse = (\<lambda>q. Raises),
       now = \<lparr>year = 2024, month = 1, day = 1, hour = 0, minute = 0, second = 0\<rparr>\<rparr>
     (format_float \<lparr>format_float = (\<lambda>x. ''<float>''), to_csv = (\<lambda>df. [])\<rparr> 0 @ '', '' @
      format_float \<lparr>format_float = (\<lambda>x. ''<float>''), to_csv = (\<lambda>df. [])\<rparr> 0) = Raises \<and>
   map address (locations (snd (add_manual_location
     \<lparr>format_float = (\<lambda>x. ''<float>''), to_csv = (\<lambda>df. [])\<rparr>
     \<lparr>reverse = (\<lambda>q. Raises),
       now = \<lparr>year = 2024, month = 1, day = 1, hour = 0, minute = 0, second = 0\<rparr>\<rparr>
     0 0 fresh_session))) = [''Unknown location''] \<and>
   truthy (PFloat 48.85) \<and> truthy (PFloat 2.35) \<and> \<not> truthy PNone \<and>
   acquisition_due
     \<lparr>manual_lat = 0, manual_lon = 0, btn_add_manual = False, auto_track = False,
       update_interval = 10, btn_clear = False, btn_get_current = True, time_time = 0,
       btn_export = False\<rparr> \<and>
   map_option address (snd (get_location
     \<lparr>format_float = (\<lambda>x. ''<float>''), to_csv = (\<lambda>df. [])\<rparr>
     \<lparr>reverse = (\<lambda>q. Raises),
       now = \<lparr>year = 2024, month = 1, day = 1, hour = 0, minute = 0, second = 0\<rparr>\<rparr>
     \<lparr>locations = [], lat = PFloat 48.85, lon = PFloat 2.35, acc = PFloat 12, error = PNone\<rparr>)) = Some ''Unknown location'' \<and>
   map address (locations (snd (acquire
     \<lparr>format_float = (\<lambda>x. ''<float>''), to_csv = (\<lambda>df. [])\<rparr>
     \<lparr>reverse = (\<lambda>q. Raises),
       now = \<lparr>year = 2024, month = 1, day = 1, hour = 0, minute = 0, second = 0\<rparr>\<rparr>
     \<lparr>manual_lat = 0, manual_lon = 0, btn_add_manual = False, auto_track = False,
       update_interval = 10, btn_clear = False, btn_get_current = True, time_time = 0,
       btn_export = False\<rparr>
     \<lparr>locations = [], lat = PFloat 48.85, lon = PFloat 2.35, acc = PFloat 12, error = PNone\<rparr>))) = [''Unknown location'']"
  using geocoding_failure_falls_back
    [where rv = "\<lambda>q. Raises" and q = "''0.0, 0.0''"
       and sv = "\<lparr>reverse = (\<lambda>q. Raises),
       now = \<lparr>year = 2024, month = 1, day = 1, hour = 0, minute = 0, second = 0\<rparr>\<rparr>"
       and L = "\<lparr>format_float = (\<lambda>x. ''<float>''), to_csv = (\<lambda>df. [])\<rparr>"
       and la = 0 and lo = 0 and st = fresh_session
       and inp = "\<lparr>manual_lat = 0, manual_lon = 0, btn_add_manual = False, auto_track = False,
       update_interval = 10, btn_clear = False, btn_get_current = True, time_time = 0,
       btn_export = False\<rparr>"]
    geocoding_failure_falls_back
    [where rv = "\<lambda>q. Returns None" and q = "''0.0, 0.0''"
       and sv = "\<lparr>reverse = (\<lambda>q. Raises),
       now = \<lparr>year = 2024, month = 1, day = 1, hour = 0, minute = 0, second = 0\<rparr>\<rparr>"
       and L = "\<lparr>format_float = (\<lambda>x. ''<float>''), to_csv = (\<lambda>df. [])\<rparr>"
       and la = 0 and lo = 0
       and st = "\<lparr>locations = [], lat = PFloat 48.85, lon = PFloat 2.35, acc = PFloat 12, error = PNone\<rparr>"
       and inp = "\<lparr>manual_lat = 0, manual_lon = 0, btn_add_manual = False, auto_track = False,
       update_interval = 10, btn_clear = False, btn_get_current = True, time_time = 0,
       btn_export = False\<rparr>"]
  by (simp add: append_location_def fresh_session_def acquisition_due_def)

subsection \<open>Order of the history\<close>

text \<open>
  C2. Appending records one after the other to any history leaves the old history
  followed by the new records in the order they were appended, and the last element is the
  record appended last. In a run of the script without the clear button the history is the
  old one followed by the manual record (if added) and then the acquired record (if any);
  over any sequence of such runs the starting history stays, unchanged, in front.
\<close>

theorem history_keeps_append_order:
  "locations (foldl append_location st xs) = locations st @ xs \<and>
   (xs \<noteq> [] \<longrightarrow> last (locations (foldl append_location st xs)) = last xs) \<and>
   (\<not> btn_clear inp \<longrightarrow>
      locations (snd (run L svm svb inp st)) =
        locations st @
        (if btn_add_manual inp
         then [\<lparr>latitude = PFloat (manual_lat inp), longitude = PFloat (manual_lon inp),
                 accuracy = PInt 0,
                 address = try_reverse (reverse svm)
                   (format_float L (manual_lat inp) @ '', '' @ format_float L (manual_lon inp)),
                 timestamp = strftime (now svm)\<rparr>]
         else []) @
        (if acquisition_due inp
         then (case snd (get_location L svb st) of None \<Rightarrow> [] | Some loc \<Rightarrow> [loc])
         else [])) \<and>
   ((\<forall>step \<in> set steps. \<not> btn_clear (snd (snd step))) \<longrightarrow>
      (\<exists>new. locations (session L steps st) = locations st @ new))"
  using session_keeps_prefix [of steps L st]
  by (simp add: locations_foldl_append run_locations)

theorem history_keeps_append_order_witness:
  "[\<lparr>latitude = PFloat 37, longitude = PFloat (-122), accuracy = PInt 5, address = ''X'',
       timestamp = ''2024-01-01 00:00:00''\<rparr>,
    \<lparr>latitude = PFloat 37.1, longitude = PFloat (-122.1), accuracy = PNone, address = ''Y'',
       timestamp = ''2024-01-01 00:05:00''\<rparr>] \<noteq> [] \<and>
   locations (foldl append_location fresh_session
     [\<lparr>latitude = PFloat 37, longitude = PFloat (-122), accuracy = PInt 5, address = ''X'',
       timestamp = ''2024-01-01 00:00:00''\<rparr>,
      \<lparr>latitude = PFloat 37.1, longitude = PFloat (-122.1), accuracy = PNone, address = ''Y'',
       timestamp = ''2024-01-01 00:05:00''\<rparr>]) =
     [\<lparr>latitude = PFloat 37, longitude = PFloat (-122), accuracy = PInt 5, address = ''X'',
       timestamp = ''2024-01-01 00:00:00''\<rparr>,
      \<lparr>latitude = PFloat 37.1, longitude = PFloat (-122.1), accuracy = PNone, address = ''Y'',
       timestamp = ''2024-01-01 00:05:00''\<rparr>] \<and>
   last (locations (foldl append_location fresh_session
     [\<lparr>latitude = PFloat 37, longitude = PFloat (-122), accuracy = PInt 5, address = ''X'',
       timestamp = ''2024-01-01 00:00:00''\<rparr>,
      \<lparr>latitude = PFloat 37.1, longitude = PFloat (-122.1), accuracy = PNone, address = ''Y'',
       timestamp = ''2024-01-01 00:05:00''\<rparr>])) =
     \<lparr>latitude = PFloat 37.1, longitude = PFloat (-122.1), accuracy = PNone, address = ''Y'',
       timestamp = ''2024-01-01 00:05:00''\<rparr> \<and>
   \<not> btn_clear
     \<lparr>manual_lat = 48.85, manual_lon = 2.35, btn_add_manual = True, auto_track = False,
       update_interval = 10, btn_clear = False, btn_get_current = False, time_time = 0,
       btn_export = False\<rparr> \<and>
   map latitude (locations (snd (run
     \<lparr>format_float = (\<lambda>x. ''<float>''), to_csv = (\<lambda>df. [])\<rparr>
     \<lparr>reverse = (\<lambda>q. Raises),
       now = \<lparr>year = 2024, month = 1, day = 1, hour = 0, minute = 0, second = 0\<rparr>\<rparr>
     \<lparr>reverse = (\<lambda>q. Raises),
       now = \<lparr>year = 2024, month = 1, day = 1, hour = 0, minute = 0, second = 0\<rparr>\<rparr>
     \<lparr>manual_lat = 48.85, manual_lon = 2.35, btn_add_manual = True, auto_track = False,
       update_interval = 10, btn_clear = False, btn_get_current = False, time_time = 0,
       btn_export = False\<rparr>
     \<lparr>locations = [\<lparr>latitude = PFloat 37, longitude = PFloat (-122), accuracy = PInt 5, address = ''X'',
       timestamp = ''2024-01-01 00:00:00''\<rparr>], lat = PNone, lon = PNone, acc = PNone, error = PNone\<rparr>))) = [PFloat 37, PFloat 48.85] \<and>
   (\<exists>new. locations (session
     \<lparr>format_float = (\<lambda>x. ''<float>''), to_csv = (\<lambda>df. [])\<rparr>
     [(\<lparr>reverse = (\<lambda>q. Raises),
       now = \<lparr>year = 2024, month = 1, day = 1, hour = 0, minute = 0, second = 0\<rparr>\<rparr>,
       \<lparr>reverse = (\<lambda>q. Raises),
       now = \<lparr>year = 2024, month = 1, day = 1, hour = 0, minute = 0, second = 0\<rparr>\<rparr>,
       \<lparr>manual_lat = 48.85, manual_lon = 2.35, btn_add_manual = True, auto_track = False,
       update_interval = 10, btn_clear = False, btn_get_current = False, time_time = 0,
       btn_export = False\<rparr>)]
     \<lparr>locations = [\<lparr>latitude = PFloat 37, longitude = PFloat (-122), accuracy = PInt 5, address = ''X'',
       timestamp = ''2024-01-01 00:00:00''\<rparr>], lat = PNone, lon = PNone, acc = PNone, error = PNone\<rparr>) =
     \<lparr>latitude = PFloat 37, longitude = PFloat (-122), accuracy = PInt 5, address = ''X'',
       timestamp = ''2024-01-01 00:00:00''\<rparr> # new)"
  using history_keeps_append_order
    [where st = fresh_session
       and xs = "[\<lparr>latitude = PFloat 37, longitude = PFloat (-122), accuracy = PInt 5, address = ''X'',
       timestamp = ''2024-01-01 00:00:00''\<rparr>,
      \<lparr>latitude = PFloat 37.1, longitude = PFloat (-122.1), accuracy = PNone, address = ''Y'',
       timestamp = ''2024-01-01 00:05:00''\<rparr>]"
       and steps = "[]"
       and L = "\<lparr>format_float = (\<lambda>x. ''<float>''), to_csv = (\<lambda>df. [])\<rparr>"
       and svm = "\<lparr>reverse = (\<lambda>q. Raises),
       now = \<lparr>year = 2024, month = 1, day = 1, hour = 0, minute = 0, second = 0\<rparr>\<rparr>"
       and svb = "\<lparr>reverse = (\<lambda>q. Raises),
       now = \<lparr>year = 2024, month = 1, day = 1, hour = 0, minute = 0, second = 0\<rparr>\<rparr>"
       and inp = "\<lparr>manual_lat = 48.85, manual_lon = 2.35, btn_add_manual = True, auto_track = False,
       update_interval = 10, btn_clear = False, btn_get_current = False, time_time = 0,
       btn_export = False\<rparr>"]
    history_keeps_append_order
    [where st = "\<lparr>locations = [\<lparr>latitude = PFloat 37, longitude = PFloat (-122), accuracy = PInt 5, address = ''X'',
       timestamp = ''2024-01-01 00:00:00''\<rparr>], lat = PNone, lon = PNone, acc = PNone, error = PNone\<rparr>"
       and xs = "[]"
       and steps = "[(\<lparr>reverse = (\<lambda>q. Raises),
       now = \<lparr>year = 2024, month = 1, day = 1, hour = 0, minute = 0, second = 0\<rparr>\<rparr>,
       \<lparr>reverse = (\<lambda>q. Raises),
       now = \<lparr>year = 2024, month = 1, day = 1, hour = 0, minute = 0, second = 0\<rparr>\<rparr>,
       \<lparr>manual_lat = 48.85, manual_lon = 2.35, btn_add_manual = True, auto_track = False,
       update_interval = 10, btn_clear = False, btn_get_current = False, time_time = 0,
       btn_export = False\<rparr>)]"
       and L = "\<lparr>format_float = (\<lambda>x. ''<float>''), to_csv = (\<lambda>df. [])\<rparr>"
       and svm = "\<lparr>reverse = (\<lambda>q. Raises),
       now = \<lparr>year = 2024, month = 1, day = 1, hour = 0, minute = 0, second = 0\<rparr>\<rparr>"
       and svb = "\<lparr>reverse = (\<lambda>q. Raises),
       now = \<lparr>year = 2024, month = 1, day = 1, hour = 0, minute = 0, second = 0\<rparr>\<rparr>"
       and inp = "\<lparr>manual_lat = 48.85, manual_lon = 2.35, btn_add_manual = True, auto_track = False,
       update_interval = 10, btn_clear = False, btn_get_current = False, time_time = 0,
       btn_export = False\<rparr>"]
  by (simp add: fresh_session_def acquisition_due_def)

subsection \<open>The map\<close>

text \<open>
  C3. The map column is a function of the history. An empty history gives the
  informational placeholder and no map. A history of \<^verbatim>\<open>N > 0\<close> records gives one map, centred on
  the coordinates of the last record at zoom 15, with exactly \<^verbatim>\<open>N\<close> markers at the records'
  coordinates in insertion order; the last marker has the red "latest" icon and all the
  earlier ones the blue icon; there is no polyline for \<^verbatim>\<open>N = 1\<close> and exactly one, through
  all the coordinates in insertion order, for \<^verbatim>\<open>N\<close> of at least 2.
\<close>

theorem map_shows_history:
  "(locs = [] \<longrightarrow>
      shown_maps (map_view L locs) = [] \<and> (\<exists>msg. map_view L locs = [Info msg])) \<and>
   (locs \<noteq> [] \<longrightarrow>
      map_view L locs = [FoliumStatic (build_map L locs) 700 500] \<and>
      shown_maps (map_view L locs) = [build_map L locs] \<and>
      location (build_map L locs) = [latitude (last locs), longitude (last locs)] \<and>
      zoom_start (build_map L locs) = 15 \<and>
      length (map_markers (build_map L locs)) = length locs \<and>
      map marker_location (map_markers (build_map L locs)) =
        map (\<lambda>loc. [latitude loc, longitude loc]) locs \<and>
      map marker_popup (map_markers (build_map L locs)) = map (popup_text L) locs \<and>
      map marker_icon (map_markers (build_map L locs)) =
        replicate (length locs - 1) earlier_icon @ [latest_icon] \<and>
      latest_icon \<noteq> earlier_icon \<and>
      map_polylines (build_map L locs) =
        (if 2 \<le> length locs
         then [PolyLine (map (\<lambda>loc. [latitude loc, longitude loc]) locs) ''green'' 2.5 1]
         else []))"
proof (cases "locs = []")
  case True
  then show ?thesis by (simp add: map_view_def)
next
  case False
  have loc: "map marker_location (map_markers (build_map L locs)) =
        map (\<lambda>loc. [latitude loc, longitude loc]) locs"
    using False coords_butlast_last [OF False, of "\<lambda>loc. [latitude loc, longitude loc]"]
    by (simp add: build_map_markers o_def)
  have pop: "map marker_popup (map_markers (build_map L locs)) = map (popup_text L) locs"
    using False coords_butlast_last [OF False, of "popup_text L"]
    by (simp add: build_map_markers o_def)
  have ico: "map marker_icon (map_markers (build_map L locs)) =
        replicate (length locs - 1) earlier_icon @ [latest_icon]"
    using False by (simp add: build_map_markers o_def map_replicate_const)
  have len: "length (map_markers (build_map L locs)) = length locs"
    using False by (simp add: build_map_markers)
  have ctr: "location (build_map L locs) = [latitude (last locs), longitude (last locs)]"
       "zoom_start (build_map L locs) = 15"
    by (simp_all add: build_map_def Let_def)
  have dist: "latest_icon \<noteq> earlier_icon"
    by (simp add: latest_icon_def earlier_icon_def)
  show ?thesis
    using False loc pop ico len ctr dist build_map_polylines [OF False, of L]
    by (simp add: map_view_def)
qed

theorem map_shows_history_witness:
  "shown_maps (map_view \<lparr>format_float = (\<lambda>x. ''<float>''), to_csv = (\<lambda>df. [])\<rparr> []) = [] \<and>
   [\<lparr>latitude = PFloat 37, longitude = PFloat (-122), accuracy = PInt 5, address = ''X'',
      timestamp = ''2024-01-01 00:00:00''\<rparr>,
     \<lparr>latitude = PFloat 37.1, longitude = PFloat (-122.1), accuracy = PNone, address = ''Y'',
      timestamp = ''2024-01-01 00:05:00''\<rparr>] \<noteq> [] \<and>
   location (build_map \<lparr>format_float = (\<lambda>x. ''<float>''), to_csv = (\<lambda>df. [])\<rparr>
     [\<lparr>latitude = PFloat 37, longitude = PFloat (-122), accuracy = PInt 5, address = ''X'',
       timestamp = ''2024-01-01 00:00:00''\<rparr>,
      \<lparr>latitude = PFloat 37.1, longitude = PFloat (-122.1), accuracy = PNone, address = ''Y'',
       timestamp = ''2024-01-01 00:05:00''\<rparr>]) = [PFloat 37.1, PFloat (-122.1)] \<and>
   map marker_location (map_markers (build_map \<lparr>format_float = (\<lambda>x. ''<float>''), to_csv = (\<lambda>df. [])\<rparr>
     [\<lparr>latitude = PFloat 37, longitude = PFloat (-122), accuracy = PInt 5, address = ''X'',
       timestamp = ''2024-01-01 00:00:00''\<rparr>,
      \<lparr>latitude = PFloat 37.1, longitude = PFloat (-122.1), accuracy = PNone, address = ''Y'',
       timestamp = ''2024-01-01 00:05:00''\<rparr>])) =
     [[PFloat 37, PFloat (-122)], [PFloat 37.1, PFloat (-122.1)]] \<and>
   map marker_icon (map_markers (build_map \<lparr>format_float = (\<lambda>x. ''<float>''), to_csv = (\<lambda>df. [])\<rparr>
     [\<lparr>latitude = PFloat 37, longitude = PFloat (-122), accuracy = PInt 5, address = ''X'',
       timestamp = ''2024-01-01 00:00:00''\<rparr>,
      \<lparr>latitude = PFloat 37.1, longitude = PFloat (-122.1), accuracy = PNone, address = ''Y'',
       timestamp = ''2024-01-01 00:05:00''\<rparr>])) = [earlier_icon, latest_icon] \<and>
   map_polylines (build_map \<lparr>format_float = (\<lambda>x. ''<float>''), to_csv = (\<lambda>df. [])\<rparr>
     [\<lparr>latitude = PFloat 37, longitude = PFloat (-122), accuracy = PInt 5, address = ''X'',
       timestamp = ''2024-01-01 00:00:00''\<rparr>,
      \<lparr>latitude = PFloat 37.1, longitude = PFloat (-122.1), accuracy = PNone, address = ''Y'',
       timestamp = ''2024-01-01 00:05:00''\<rparr>]) =
     [PolyLine [[PFloat 37, PFloat (-122)], [PFloat 37.1, PFloat (-122.1)]] ''green'' 2.5 1]"
  using map_shows_history
    [of "[]" "\<lparr>format_float = (\<lambda>x. ''<float>''), to_csv = (\<lambda>df. [])\<rparr>"]
    map_shows_history
    [of "[\<lparr>latitude = PFloat 37, longitude = PFloat (-122), accuracy = PInt 5, address = ''X'',
       timestamp = ''2024-01-01 00:00:00''\<rparr>,
      \<lparr>latitude = PFloat 37.1, longitude = PFloat (-122.1), accuracy = PNone, address = ''Y'',
       timestamp = ''2024-01-01 00:05:00''\<rparr>]"
      "\<lparr>format_float = (\<lambda>x. ''<float>''), to_csv = (\<lambda>df. [])\<rparr>"]
  by simp

subsection \<open>The export\<close>




subsection \<open>Coordinate ranges\<close>

text \<open>
  C5 (as amended). Neither controller checks a coordinate's range. The history after a
  manual entry has every latitude in [-90, 90] and every longitude in [-180, 180] exactly
  when the history before had and the typed values are in range. Over any sequence of runs
  the range property is kept provided it held at the start, every pair submitted with the
  manual button was in range, and the browser's pair, when it is truthy, was in range.
\<close>

theorem coordinates_in_range_when_inputs_are:
  "(list_all valid_coordinates (locations (snd (add_manual_location L sv la lo st))) =
      (list_all valid_coordinates (locations st) \<and>
       - 90 \<le> la \<and> la \<le> 90 \<and> - 180 \<le> lo \<and> lo \<le> 180)) \<and>
   (list_all valid_coordinates (locations st) \<and>
    (\<forall>step \<in> set steps. btn_add_manual (snd (snd step)) \<longrightarrow>
           - 90 \<le> manual_lat (snd (snd step)) \<and> manual_lat (snd (snd step)) \<le> 90 \<and>
           - 180 \<le> manual_lon (snd (snd step)) \<and> manual_lon (snd (snd step)) \<le> 180) \<and>
    (truthy (lat st) \<and> truthy (lon st) \<longrightarrow>
           in_range (- 90) 90 (lat st) \<and> in_range (- 180) 180 (lon st)) \<longrightarrow>
    list_all valid_coordinates (locations (session L steps st)))"
proof -
  have "list_all valid_coordinates (locations (snd (add_manual_location L sv la lo st))) =
      (list_all valid_coordinates (locations st) \<and>
       - 90 \<le> la \<and> la \<le> 90 \<and> - 180 \<le> lo \<and> lo \<le> 180)"
    by (auto simp: add_manual_location_def append_location_def Let_def valid_coordinates_def
        in_range_def)
  then show ?thesis
    using session_valid_coordinates [of st steps L] by blast
qed

text \<open>
  The data model's range for coordinates is not an invariant of the history: one manual
  entry of latitude 91 in a fresh session puts an out-of-range record into it.
\<close>

theorem coordinates_out_of_range_counterexample:
  "\<not> list_all valid_coordinates
      (locations (session \<lparr>format_float = (\<lambda>x. ''0.0''), to_csv = (\<lambda>df. [])\<rparr>
        [(\<lparr>reverse = (\<lambda>q. Raises),
           now = \<lparr>year = 2024, month = 1, day = 1, hour = 0, minute = 0, second = 0\<rparr>\<rparr>,
          \<lparr>reverse = (\<lambda>q. Raises),
           now = \<lparr>year = 2024, month = 1, day = 1, hour = 0, minute = 0, second = 0\<rparr>\<rparr>,
          \<lparr>manual_lat = 91, manual_lon = 0, btn_add_manual = True, auto_track = False,
           update_interval = 10, btn_clear = False, btn_get_current = False, time_time = 0,
           btn_export = False\<rparr>)]
        fresh_session))"
  by (simp add: run_locations acquisition_due_def fresh_session_def valid_coordinates_def
      in_range_def)

theorem coordinates_in_range_when_inputs_are_witness:
  "list_all valid_coordinates (locations fresh_session) \<and>
   btn_add_manual \<lparr>manual_lat = 48.85, manual_lon = 2.35, btn_add_manual = True,
     auto_track = False, update_interval = 10, btn_clear = False, btn_get_current = False,
     time_time = 0, btn_export = False\<rparr> \<and>
   - 90 \<le> (48.85 :: real) \<and> (48.85 :: real) \<le> 90 \<and> - 180 \<le> (2.35 :: real) \<and> (2.35 :: real) \<le> 180 \<and>
   \<not> truthy (lat fresh_session) \<and>
   list_all valid_coordinates
      (locations (session \<lparr>format_float = (\<lambda>x. ''0.0''), to_csv = (\<lambda>df. [])\<rparr>
        [(\<lparr>reverse = (\<lambda>q. Raises),
           now = \<lparr>year = 2024, month = 1, day = 1, hour = 0, minute = 0, second = 0\<rparr>\<rparr>,
          \<lparr>reverse = (\<lambda>q. Raises),
           now = \<lparr>year = 2024, month = 1, day = 1, hour = 0, minute = 0, second = 0\<rparr>\<rparr>,
          \<lparr>manual_lat = 48.85, manual_lon = 2.35, btn_add_manual = True, auto_track = False,
           update_interval = 10, btn_clear = False, btn_get_current = False, time_time = 0,
           btn_export = False\<rparr>)]
        fresh_session)) \<and>
   length (locations (session \<lparr>format_float = (\<lambda>x. ''0.0''), to_csv = (\<lambda>df. [])\<rparr>
        [(\<lparr>reverse = (\<lambda>q. Raises),
           now = \<lparr>year = 2024, month = 1, day = 1, hour = 0, minute = 0, second = 0\<rparr>\<rparr>,
          \<lparr>reverse = (\<lambda>q. Raises),
           now = \<lparr>year = 2024, month = 1, day = 1, hour = 0, minute = 0, second = 0\<rparr>\<rparr>,
          \<lparr>manual_lat = 48.85, manual_lon = 2.35, btn_add_manual = True, auto_track = False,
           update_interval = 10, btn_clear = False, btn_get_current = False, time_time = 0,
           btn_export = False\<rparr>)]
        fresh_session)) = 1"
proof -
  have len: "length (locations (session \<lparr>format_float = (\<lambda>x. ''0.0''), to_csv = (\<lambda>df. [])\<rparr>
        [(\<lparr>reverse = (\<lambda>q. Raises),
           now = \<lparr>year = 2024, month = 1, day = 1, hour = 0, minute = 0, second = 0\<rparr>\<rparr>,
          \<lparr>reverse = (\<lambda>q. Raises),
           now = \<lparr>year = 2024, month = 1, day = 1, hour = 0, minute = 0, second = 0\<rparr>\<rparr>,
          \<lparr>manual_lat = 48.85, manual_lon = 2.35, btn_add_manual = True, auto_track = False,
           update_interval = 10, btn_clear = False, btn_get_current = False, time_time = 0,
           btn_export = False\<rparr>)]
        fresh_session)) = 1"
    by (simp add: run_locations acquisition_due_def fresh_session_def)
  show ?thesis
    using coordinates_in_range_when_inputs_are
      [of "\<lparr>format_float = (\<lambda>x. ''0.0''), to_csv = (\<lambda>df. [])\<rparr>"
          "\<lparr>reverse = (\<lambda>q. Raises),
           now = \<lparr>year = 2024, month = 1, day = 1, hour = 0, minute = 0, second = 0\<rparr>\<rparr>"
          0 0 fresh_session
          "[(\<lparr>reverse = (\<lambda>q. Raises),
           now = \<lparr>year = 2024, month = 1, day = 1, hour = 0, minute = 0, second = 0\<rparr>\<rparr>,
          \<lparr>reverse = (\<lambda>q. Raises),
           now = \<lparr>year = 2024, month = 1, day = 1, hour = 0, minute = 0, second = 0\<rparr>\<rparr>,
          \<lparr>manual_lat = 48.85, manual_lon = 2.35, btn_add_manual = True, auto_track = False,
           update_interval = 10, btn_clear = False, btn_get_current = False, time_time = 0,
           btn_export = False\<rparr>)]"]
      len
    by (simp add: fresh_session_def)
qed

subsection \<open>Manual entry\<close>

text \<open>
  C6. The manual handler always appends exactly one record: its latitude and longitude
  are the typed values, its accuracy is the integer 0, its address is the address the
  geocoder returned, or "Unknown location" when the lookup raised or returned nothing, and
  its timestamp is the reading of the clock written as four digits of the year, two of
  the month and two of the day, joined by hyphens, a space, and two digits each of the
  hour, minute and second, joined by colons (the shape \<^verbatim>\<open>YYYY-MM-DD HH:MM:SS\<close>). No value
  of the typed pair is refused, the default (0.0, 0.0) included. A run started by the
  manual button alone leaves the old history followed by that record.
\<close>

theorem manual_entry_appends_one_record:
  "valid_datetime (now sv) \<Longrightarrow>
   \<exists>loc. add_manual_location L sv la lo st =
            ([Success ''Manual location added!''], st\<lparr>locations := locations st @ [loc]\<rparr>) \<and>
         latitude loc = PFloat la \<and> longitude loc = PFloat lo \<and> accuracy loc = PInt 0 \<and>
         (address loc = ''Unknown location'' \<or>
          (\<exists>g. reverse sv (format_float L la @ '', '' @ format_float L lo) = Returns (Some g) \<and>
               address loc = geo_address g)) \<and>
         (\<forall>g. reverse sv (format_float L la @ '', '' @ format_float L lo) = Returns (Some g) \<longrightarrow>
               address loc = geo_address g) \<and>
         (reverse sv (format_float L la @ '', '' @ format_float L lo) = Raises \<or>
          reverse sv (format_float L la @ '', '' @ format_float L lo) = Returns None \<longrightarrow>
               address loc = ''Unknown location'') \<and>
         timestamp loc = strftime (now sv) \<and> is_timestamp (timestamp loc) \<and>
         timestamp loc =
           [char_of (48 + year (now sv) div 1000), char_of (48 + year (now sv) div 100 mod 10),
            char_of (48 + year (now sv) div 10 mod 10), char_of (48 + year (now sv) mod 10),
            CHR ''-'',
            char_of (48 + month (now sv) div 10), char_of (48 + month (now sv) mod 10),
            CHR ''-'',
            char_of (48 + day (now sv) div 10), char_of (48 + day (now sv) mod 10),
            CHR '' '',
            char_of (48 + hour (now sv) div 10), char_of (48 + hour (now sv) mod 10),
            CHR '':'',
            char_of (48 + minute (now sv) div 10), char_of (48 + minute (now sv) mod 10),
            CHR '':'',
            char_of (48 + second (now sv) div 10), char_of (48 + second (now sv) mod 10)] \<and>
         (btn_add_manual inp \<and> \<not> btn_clear inp \<and> \<not> acquisition_due inp \<and>
          manual_lat inp = la \<and> manual_lon inp = lo \<longrightarrow>
            locations (snd (run L sv svb inp st)) = locations st @ [loc])"
proof -
  assume v: "valid_datetime (now sv)"
  let ?loc = "\<lparr>latitude = PFloat la, longitude = PFloat lo, accuracy = PInt 0,
     address = try_reverse (reverse sv) (format_float L la @ '', '' @ format_float L lo),
     timestamp = strftime (now sv)\<rparr>"
  have 1: "add_manual_location L sv la lo st =
            ([Success ''Manual location added!''], st\<lparr>locations := locations st @ [?loc]\<rparr>)"
    by (simp add: add_manual_location_def append_location_def Let_def)
  have 2: "address ?loc = ''Unknown location'' \<or>
          (\<exists>g. reverse sv (format_float L la @ '', '' @ format_float L lo) = Returns (Some g) \<and>
               address ?loc = geo_address g)"
    by (auto simp: try_reverse_def split: reverse_result.splits option.splits)
  have 3: "\<forall>g. reverse sv (format_float L la @ '', '' @ format_float L lo) = Returns (Some g) \<longrightarrow>
               address ?loc = geo_address g"
    by (simp add: try_reverse_def)
  have 4: "reverse sv (format_float L la @ '', '' @ format_float L lo) = Raises \<or>
          reverse sv (format_float L la @ '', '' @ format_float L lo) = Returns None \<longrightarrow>
               address ?loc = ''Unknown location''"
    by (auto simp: try_reverse_def)
  have 5: "is_timestamp (timestamp ?loc)"
    using v by (simp add: strftime_is_timestamp)
  have 6: "timestamp ?loc =
           [char_of (48 + year (now sv) div 1000), char_of (48 + year (now sv) div 100 mod 10),
            char_of (48 + year (now sv) div 10 mod 10), char_of (48 + year (now sv) mod 10),
            CHR ''-'',
            char_of (48 + month (now sv) div 10), char_of (48 + month (now sv) mod 10),
            CHR ''-'',
            char_of (48 + day (now sv) div 10), char_of (48 + day (now sv) mod 10),
            CHR '' '',
            char_of (48 + hour (now sv) div 10), char_of (48 + hour (now sv) mod 10),
            CHR '':'',
            char_of (48 + minute (now sv) div 10), char_of (48 + minute (now sv) mod 10),
            CHR '':'',
            char_of (48 + second (now sv) div 10), char_of (48 + second (now sv) mod 10)]"
    using strftime_digits [OF v] by simp
  have 7: "btn_add_manual inp \<and> \<not> btn_clear inp \<and> \<not> acquisition_due inp \<and>
          manual_lat inp = la \<and> manual_lon inp = lo \<longrightarrow>
            locations (snd (run L sv svb inp st)) = locations st @ [?loc]"
    by (auto simp: run_locations)
  have 8: "latitude ?loc = PFloat la \<and> longitude ?loc = PFloat lo \<and> accuracy ?loc = PInt 0 \<and>
    timestamp ?loc = strftime (now sv)"
    by simp
  show ?thesis
    apply (rule exI [of _ ?loc])
    using 1 2 3 4 5 6 7 8 by blast
qed


theorem manual_entry_appends_one_record_witness:
  "valid_datetime \<lparr>year = 2024, month = 3, day = 7, hour = 14, minute = 5, second = 9\<rparr> \<and>
   \<not> acquisition_due
     \<lparr>manual_lat = 0, manual_lon = 0, btn_add_manual = True, auto_track = False,
       update_interval = 10, btn_clear = False, btn_get_current = False, time_time = 0,
       btn_export = False\<rparr> \<and>
   reverse
     \<lparr>reverse = (\<lambda>q. Returns (Some (GeoLocation ''Null Island''))),
       now = \<lparr>year = 2024, month = 3, day = 7, hour = 14, minute = 5, second = 9\<rparr>\<rparr>
     (format_float \<lparr>format_float = (\<lambda>x. ''0.0''), to_csv = (\<lambda>df. [])\<rparr> 0 @ '', '' @
      format_float \<lparr>format_float = (\<lambda>x. ''0.0''), to_csv = (\<lambda>df. [])\<rparr> 0) = Returns (Some (GeoLocation ''Null Island'')) \<and>
   locations (snd (run
     \<lparr>format_float = (\<lambda>x. ''0.0''), to_csv = (\<lambda>df. [])\<rparr>
     \<lparr>reverse = (\<lambda>q. Returns (Some (GeoLocation ''Null Island''))),
       now = \<lparr>year = 2024, month = 3, day = 7, hour = 14, minute = 5, second = 9\<rparr>\<rparr>
     \<lparr>reverse = (\<lambda>q. Returns (Some (GeoLocation ''Null Island''))),
       now = \<lparr>year = 2024, month = 3, day = 7, hour = 14, minute = 5, second = 9\<rparr>\<rparr>
     \<lparr>manual_lat = 0, manual_lon = 0, btn_add_manual = True, auto_track = False,
       update_interval = 10, btn_clear = False, btn_get_current = False, time_time = 0,
       btn_export = False\<rparr>
     fresh_session)) =
     [\<lparr>latitude = PFloat 0, longitude = PFloat 0, accuracy = PInt 0,
        address = ''Null Island'', timestamp = ''2024-03-07 14:05:09''\<rparr>] \<and>
   reverse
     \<lparr>reverse = (\<lambda>q. Raises),
       now = \<lparr>year = 2024, month = 3, day = 7, hour = 14, minute = 5, second = 9\<rparr>\<rparr>
     (format_float \<lparr>format_float = (\<lambda>x. ''0.0''), to_csv = (\<lambda>df. [])\<rparr> 0 @ '', '' @
      format_float \<lparr>format_float = (\<lambda>x. ''0.0''), to_csv = (\<lambda>df. [])\<rparr> 0) = Raises \<and>
   locations (snd (add_manual_location
     \<lparr>format_float = (\<lambda>x. ''0.0''), to_csv = (\<lambda>df. [])\<rparr>
     \<lparr>reverse = (\<lambda>q. Raises),
       now = \<lparr>year = 2024, month = 3, day = 7, hour = 14, minute = 5, second = 9\<rparr>\<rparr>
     0 0 fresh_session)) =
     [\<lparr>latitude = PFloat 0, longitude = PFloat 0, accuracy = PInt 0,
        address = ''Unknown location'', timestamp = ''2024-03-07 14:05:09''\<rparr>]"
proof -
  have v1: "valid_datetime (now
     \<lparr>reverse = (\<lambda>q. Returns (Some (GeoLocation ''Null Island''))),
       now = \<lparr>year = 2024, month = 3, day = 7, hour = 14, minute = 5, second = 9\<rparr>\<rparr>)"
    by (simp add: valid_datetime_def)
  have v2: "valid_datetime (now
     \<lparr>reverse = (\<lambda>q. Raises),
       now = \<lparr>year = 2024, month = 3, day = 7, hour = 14, minute = 5, second = 9\<rparr>\<rparr>)"
    by (simp add: valid_datetime_def)
  have nd: "\<not> acquisition_due
     \<lparr>manual_lat = 0, manual_lon = 0, btn_add_manual = True, auto_track = False,
       update_interval = 10, btn_clear = False, btn_get_current = False, time_time = 0,
       btn_export = False\<rparr>"
    by (simp add: acquisition_due_def)
  from manual_entry_appends_one_record [OF v1,
      where L = "\<lparr>format_float = (\<lambda>x. ''0.0''), to_csv = (\<lambda>df. [])\<rparr>"
        and la = 0 and lo = 0 and st = fresh_session
        and inp = "\<lparr>manual_lat = 0, manual_lon = 0, btn_add_manual = True, auto_track = False,
       update_interval = 10, btn_clear = False, btn_get_current = False, time_time = 0,
       btn_export = False\<rparr>"
        and svb = "\<lparr>reverse = (\<lambda>q. Returns (Some (GeoLocation ''Null Island''))),
       now = \<lparr>year = 2024, month = 3, day = 7, hour = 14, minute = 5, second = 9\<rparr>\<rparr>"]
  obtain loc1 where
    "latitude loc1 = PFloat 0" "longitude loc1 = PFloat 0" "accuracy loc1 = PInt 0"
    "address loc1 = ''Null Island''" "timestamp loc1 = ''2024-03-07 14:05:09''"
    "locations (snd (run
     \<lparr>format_float = (\<lambda>x. ''0.0''), to_csv = (\<lambda>df. [])\<rparr>
     \<lparr>reverse = (\<lambda>q. Returns (Some (GeoLocation ''Null Island''))),
       now = \<lparr>year = 2024, month = 3, day = 7, hour = 14, minute = 5, second = 9\<rparr>\<rparr>
     \<lparr>reverse = (\<lambda>q. Returns (Some (GeoLocation ''Null Island''))),
       now = \<lparr>year = 2024, month = 3, day = 7, hour = 14, minute = 5, second = 9\<rparr>\<rparr>
     \<lparr>manual_lat = 0, manual_lon = 0, btn_add_manual = True, auto_track = False,
       update_interval = 10, btn_clear = False, btn_get_current = False, time_time = 0,
       btn_export = False\<rparr>
     fresh_session)) = [loc1]"
    using nd by (auto simp: fresh_session_def digit_chars)
  then have r1: "locations (snd (run
     \<lparr>format_float = (\<lambda>x. ''0.0''), to_csv = (\<lambda>df. [])\<rparr>
     \<lparr>reverse = (\<lambda>q. Returns (Some (GeoLocation ''Null Island''))),
       now = \<lparr>year = 2024, month = 3, day = 7, hour = 14, minute = 5, second = 9\<rparr>\<rparr>
     \<lparr>reverse = (\<lambda>q. Returns (Some (GeoLocation ''Null Island''))),
       now = \<lparr>year = 2024, month = 3, day = 7, hour = 14, minute = 5, second = 9\<rparr>\<rparr>
     \<lparr>manual_lat = 0, manual_lon = 0, btn_add_manual = True, auto_track = False,
       update_interval = 10, btn_clear = False, btn_get_current = False, time_time = 0,
       btn_export = False\<rparr>
     fresh_session)) =
     [\<lparr>latitude = PFloat 0, longitude = PFloat 0, accuracy = PInt 0,
        address = ''Null Island'', timestamp = ''2024-03-07 14:05:09''\<rparr>]"
    by (cases loc1) simp
  from manual_entry_appends_one_record [OF v2,
      where L = "\<lparr>format_float = (\<lambda>x. ''0.0''), to_csv = (\<lambda>df. [])\<rparr>"
        and la = 0 and lo = 0 and st = fresh_session
        and inp = "\<lparr>manual_lat = 0, manual_lon = 0, btn_add_manual = True, auto_track = False,
       update_interval = 10, btn_clear = False, btn_get_current = False, time_time = 0,
       btn_export = False\<rparr>"
        and svb = "\<lparr>reverse = (\<lambda>q. Raises),
       now = \<lparr>year = 2024, month = 3, day = 7, hour = 14, minute = 5, second = 9\<rparr>\<rparr>"]
  obtain loc2 where
    "latitude loc2 = PFloat 0" "longitude loc2 = PFloat 0" "accuracy loc2 = PInt 0"
    "address loc2 = ''Unknown location''" "timestamp loc2 = ''2024-03-07 14:05:09''"
    "add_manual_location
     \<lparr>format_float = (\<lambda>x. ''0.0''), to_csv = (\<lambda>df. [])\<rparr>
     \<lparr>reverse = (\<lambda>q. Raises),
       now = \<lparr>year = 2024, month = 3, day = 7, hour = 14, minute = 5, second = 9\<rparr>\<rparr>
     0 0 fresh_session = ([Success ''Manual location added!''],
       fresh_session\<lparr>locations := locations fresh_session @ [loc2]\<rparr>)"
    by (auto simp: digit_chars)
  then have r2: "locations (snd (add_manual_location
     \<lparr>format_float = (\<lambda>x. ''0.0''), to_csv = (\<lambda>df. [])\<rparr>
     \<lparr>reverse = (\<lambda>q. Raises),
       now = \<lparr>year = 2024, month = 3, day = 7, hour = 14, minute = 5, second = 9\<rparr>\<rparr>
     0 0 fresh_session)) =
     [\<lparr>latitude = PFloat 0, longitude = PFloat 0, accuracy = PInt 0,
        address = ''Unknown location'', timestamp = ''2024-03-07 14:05:09''\<rparr>]"
    by (cases loc2) (simp add: fresh_session_def)
  from v1 nd r1 r2 show ?thesis
    by simp
qed

subsection \<open>Failed acquisition\<close>

text \<open>
  C7. The claim asks for a visible error message when the browser's capture fails. The
  script does have the branch for it (\<^verbatim>\<open>error_branch_shows_message\<close>), but the branch reads
  \<^verbatim>\<open>st.session_state['error']\<close>, which nothing ever writes: the callback of lines 37-40 only
  fills hidden inputs inside the component of line 49. So in every state a session reaches
  from its start the error value is \<^verbatim>\<open>None\<close>, and the acquisition step shows the hidden
  component and nothing else: no error message, whatever the browser answered. The
  history is left as it was.
\<close>

theorem acquisition_never_shows_an_error:
  "error (session L steps fresh_session) = PNone \<and>
   acquire L sv inp (session L steps fresh_session) =
     (if acquisition_due inp then [GeolocationHtml] else [], session L steps fresh_session) \<and>
   (\<forall>msg. Error msg \<notin> set (fst (acquire L sv inp (session L steps fresh_session))))"
proof -
  have e: "error (session L steps fresh_session) = PNone"
    using session_reads [of L steps fresh_session] by (simp add: fresh_session_def)
  have l: "lat (session L steps fresh_session) = PNone"
    using session_reads [of L steps fresh_session] by (simp add: fresh_session_def)
  show ?thesis
    using e l by (simp add: acquire_def get_location_def)
qed

subsection \<open>Clearing\<close>

text \<open>
  C8. Clearing leaves the empty history, whatever the history was: after the handler,
  after the sidebar of a run whose clear button is set, and, when that run acquires no
  location, at the end of the run, where the history column shows its placeholder.
\<close>

theorem clear_empties_history:
  "locations (snd (clear_history st)) = [] \<and>
   (btn_clear inp \<longrightarrow> locations (snd (sidebar L svm inp st)) = []) \<and>
   (btn_clear inp \<and> \<not> acquisition_due inp \<longrightarrow>
      locations (snd (run L svm svb inp st)) = [] \<and>
      page_col2 (fst (run L svm svb inp st)) =
        [Subheader ''Location History'', Info ''No location history available.''])"
  by (simp add: clear_history_def sidebar_locations run_locations run_page history_panel_def)

theorem clear_empties_history_witness:
  "btn_clear \<lparr>manual_lat = 0, manual_lon = 0, btn_add_manual = False, auto_track = False,
     update_interval = 10, btn_clear = True, btn_get_current = False, time_time = 0,
     btn_export = False\<rparr> \<and>
   \<not> acquisition_due \<lparr>manual_lat = 0, manual_lon = 0, btn_add_manual = False, auto_track = False,
     update_interval = 10, btn_clear = True, btn_get_current = False, time_time = 0,
     btn_export = False\<rparr> \<and>
   locations (snd (run \<lparr>format_float = (\<lambda>x. ''0.0''), to_csv = (\<lambda>df. [])\<rparr>
     \<lparr>reverse = (\<lambda>q. Raises),
      now = \<lparr>year = 2024, month = 1, day = 1, hour = 0, minute = 0, second = 0\<rparr>\<rparr>
     \<lparr>reverse = (\<lambda>q. Raises),
      now = \<lparr>year = 2024, month = 1, day = 1, hour = 0, minute = 0, second = 0\<rparr>\<rparr>
     \<lparr>manual_lat = 0, manual_lon = 0, btn_add_manual = False, auto_track = False,
      update_interval = 10, btn_clear = True, btn_get_current = False, time_time = 0,
      btn_export = False\<rparr>
     \<lparr>locations =
        [\<lparr>latitude = PFloat 37, longitude = PFloat (-122), accuracy = PInt 5, address = ''X'',
          timestamp = ''2024-01-01 00:00:00''\<rparr>,
         \<lparr>latitude = PFloat 37.1, longitude = PFloat (-122.1), accuracy = PNone, address = ''Y'',
          timestamp = ''2024-01-01 00:05:00''\<rparr>],
      lat = PNone, lon = PNone, acc = PNone, error = PNone\<rparr>)) = []"
  using clear_empties_history
    [of "\<lparr>locations =
        [\<lparr>latitude = PFloat 37, longitude = PFloat (-122), accuracy = PInt 5, address = ''X'',
          timestamp = ''2024-01-01 00:00:00''\<rparr>,
         \<lparr>latitude = PFloat 37.1, longitude = PFloat (-122.1), accuracy = PNone, address = ''Y'',
          timestamp = ''2024-01-01 00:05:00''\<rparr>],
      lat = PNone, lon = PNone, acc = PNone, error = PNone\<rparr>"
     "\<lparr>manual_lat = 0, manual_lon = 0, btn_add_manual = False, auto_track = False,
      update_interval = 10, btn_clear = True, btn_get_current = False, time_time = 0,
      btn_export = False\<rparr>"
     "\<lparr>format_float = (\<lambda>x. ''0.0''), to_csv = (\<lambda>df. [])\<rparr>"
     "\<lparr>reverse = (\<lambda>q. Raises),
      now = \<lparr>year = 2024, month = 1, day = 1, hour = 0, minute = 0, second = 0\<rparr>\<rparr>"
     "\<lparr>reverse = (\<lambda>q. Raises),
      now = \<lparr>year = 2024, month = 1, day = 1, hour = 0, minute = 0, second = 0\<rparr>\<rparr>"]
  by (simp add: acquisition_due_def)

subsection \<open>The history panel\<close>

text \<open>
  C9. For a non-empty history the panel raises nothing and shows the timestamp, the
  coordinates and the address of the last record, then, if and only if the accuracy is
  truthy, the line "Accuracy: +-<accuracy> meters" with the record's accuracy (when the
  accuracy is absent or zero no line starting with the target sign is shown at all), then
  a table with the columns
  Time, Latitude and Longitude holding the timestamp, latitude and longitude of every
  record in insertion order; the download button follows only in the run started by the
  export button.
\<close>

theorem history_panel_shows_latest_and_table:
  "locs \<noteq> [] \<Longrightarrow>
   history_panel L export locs =
     ([Write ''Latest Location:'',
       Write (emoji_calendar @ '' **Time:** '' @ timestamp (last locs)),
       Write (emoji_globe @ '' **Coordinates:** '' @ format_val L (latitude (last locs)) @ '', '' @
              format_val L (longitude (last locs))),
       Write (emoji_pin @ '' **Address:** '' @ address (last locs))] @
      (if truthy (accuracy (last locs))
       then [Write (emoji_target @ '' **Accuracy:** '' @ plus_minus @
                    format_val L (accuracy (last locs)) @ '' meters'')]
       else []) @
      [Write ''All Locations:'',
       Dataframe \<lparr>columns = [''Time'', ''Latitude'', ''Longitude''],
                  rows = map (\<lambda>loc. [PStr (timestamp loc), latitude loc, longitude loc]) locs\<rparr>] @
      (if export
       then [DownloadButton ''Download CSV File'' (to_csv L (DataFrame locs))
               ''location_history.csv'' ''text/csv'']
       else []),
      None) \<and>
   (accuracy (last locs) = PNone \<or> accuracy (last locs) = PInt 0 \<or>
    accuracy (last locs) = PFloat 0 \<longrightarrow>
      (\<forall>s. Write (emoji_target @ s) \<notin> set (fst (history_panel L export locs)))) \<and>
   (truthy (accuracy (last locs)) \<longrightarrow>
      Write (emoji_target @ '' **Accuracy:** '' @ plus_minus @
             format_val L (accuracy (last locs)) @ '' meters'')
        \<in> set (fst (history_panel L export locs)))"
  by (auto simp: history_panel_nonempty latest_details_def target_line_not_fixed)

theorem history_panel_shows_latest_and_table_witness:
  "[\<lparr>latitude = PFloat 37, longitude = PFloat (-122), accuracy = PInt 5, address = ''X'',
       timestamp = ''2024-01-01 00:00:00''\<rparr>,
    \<lparr>latitude = PFloat 37.1, longitude = PFloat (-122.1), accuracy = PNone, address = ''Y'',
       timestamp = ''2024-01-01 00:05:00''\<rparr>] \<noteq> [] \<and>
   history_panel \<lparr>format_float = (\<lambda>x. ''<float>''), to_csv = (\<lambda>df. [])\<rparr> False
     [\<lparr>latitude = PFloat 37, longitude = PFloat (-122), accuracy = PInt 5, address = ''X'',
       timestamp = ''2024-01-01 00:00:00''\<rparr>,
      \<lparr>latitude = PFloat 37.1, longitude = PFloat (-122.1), accuracy = PNone, address = ''Y'',
       timestamp = ''2024-01-01 00:05:00''\<rparr>] =
     ([Write ''Latest Location:'',
       Write (emoji_calendar @ '' **Time:** 2024-01-01 00:05:00''),
       Write (emoji_globe @ '' **Coordinates:** <float>, <float>''),
       Write (emoji_pin @ '' **Address:** Y''),
       Write ''All Locations:'',
       Dataframe \<lparr>columns = [''Time'', ''Latitude'', ''Longitude''],
                  rows = [[PStr ''2024-01-01 00:00:00'', PFloat 37, PFloat (-122)],
                          [PStr ''2024-01-01 00:05:00'', PFloat 37.1, PFloat (-122.1)]]\<rparr>],
      None) \<and>
   truthy (PInt 5) \<and>
   history_panel \<lparr>format_float = (\<lambda>x. ''<float>''), to_csv = (\<lambda>df. [])\<rparr> False
     [\<lparr>latitude = PFloat 37, longitude = PFloat (-122), accuracy = PInt 5, address = ''X'',
       timestamp = ''2024-01-01 00:00:00''\<rparr>] =
     ([Write ''Latest Location:'',
       Write (emoji_calendar @ '' **Time:** 2024-01-01 00:00:00''),
       Write (emoji_globe @ '' **Coordinates:** <float>, <float>''),
       Write (emoji_pin @ '' **Address:** X''),
       Write ([CHR 0xF0, CHR 0x9F, CHR 0x8E, CHR 0xAF] @ '' **Accuracy:** '' @
              [CHR 0xC2, CHR 0xB1] @ ''5 meters''),
       Write ''All Locations:'',
       Dataframe \<lparr>columns = [''Time'', ''Latitude'', ''Longitude''],
                  rows = [[PStr ''2024-01-01 00:00:00'', PFloat 37, PFloat (-122)]]\<rparr>],
      None)"
  using history_panel_shows_latest_and_table
    [of "[\<lparr>latitude = PFloat 37, longitude = PFloat (-122), accuracy = PInt 5, address = ''X'',
       timestamp = ''2024-01-01 00:00:00''\<rparr>,
      \<lparr>latitude = PFloat 37.1, longitude = PFloat (-122.1), accuracy = PNone, address = ''Y'',
       timestamp = ''2024-01-01 00:05:00''\<rparr>]"
      "\<lparr>format_float = (\<lambda>x. ''<float>''), to_csv = (\<lambda>df. [])\<rparr>" False]
    history_panel_shows_latest_and_table
    [of "[\<lparr>latitude = PFloat 37, longitude = PFloat (-122), accuracy = PInt 5, address = ''X'',
       timestamp = ''2024-01-01 00:00:00''\<rparr>]"
      "\<lparr>format_float = (\<lambda>x. ''<float>''), to_csv = (\<lambda>df. [])\<rparr>" False]
  by (simp add: show_int_def show_nat.simps digit_char_def char_of_eq_iff emoji_target_def
      plus_minus_def)

subsection \<open>Falsy coordinates\<close>

text \<open>
  C10. When the session's latitude or longitude is falsy (\<^verbatim>\<open>None\<close>, or the number 0),
  \<^verbatim>\<open>get_location\<close> returns no record, without any message if no error was reported, and
  the acquisition step leaves the session state as it was.
\<close>

theorem falsy_coordinates_give_no_record:
  "\<not> truthy (lat st) \<or> \<not> truthy (lon st) \<Longrightarrow>
   snd (get_location L sv st) = None \<and>
   (\<not> truthy (error st) \<longrightarrow> get_location L sv st = ([GeolocationHtml], None)) \<and>
   snd (acquire L sv inp st) = st \<and>
   \<not> truthy PNone \<and> \<not> truthy (PInt 0) \<and> \<not> truthy (PFloat 0)"
  by (auto simp: get_location_def acquire_def)

theorem falsy_coordinates_give_no_record_witness:
  "\<not> truthy PNone \<and> \<not> truthy (PFloat 0) \<and> truthy (PFloat 51.5) \<and>
   get_location \<lparr>format_float = (\<lambda>x. ''0.0''), to_csv = (\<lambda>df. [])\<rparr>
     \<lparr>reverse = (\<lambda>q. Returns (Some (GeoLocation ''Greenwich''))),
      now = \<lparr>year = 2024, month = 1, day = 1, hour = 0, minute = 0, second = 0\<rparr>\<rparr>
     \<lparr>locations = [], lat = PFloat 51.5, lon = PFloat 0, acc = PFloat 5, error = PNone\<rparr>
   = ([GeolocationHtml], None)"
  using falsy_coordinates_give_no_record
    [of "\<lparr>locations = [], lat = PFloat 51.5, lon = PFloat 0, acc = PFloat 5, error = PNone\<rparr>"
        "\<lparr>format_float = (\<lambda>x. ''0.0''), to_csv = (\<lambda>df. [])\<rparr>"
        "\<lparr>reverse = (\<lambda>q. Returns (Some (GeoLocation ''Greenwich''))),
          now = \<lparr>year = 2024, month = 1, day = 1, hour = 0, minute = 0, second = 0\<rparr>\<rparr>"]
  by simp

end
